theory Spec2Isabelle
  imports Complex_Main "HOL-Library.Product_Lexorder"
begin

section \<open>JavaScript values as the controllers use them\<close>

text \<open>
  The controllers of \<^verbatim>\<open>controllers/transactionController.js\<close> read strings out of
  the query string and the request body, convert them with the built-ins
  \<^verbatim>\<open>parseInt\<close>, \<^verbatim>\<open>new Date\<close> and the relational operators, and hand
  filters to the Mongoose model. The built-ins are modelled on the inputs the validation
  chains of \<^verbatim>\<open>routes/transaction.js\<close> let through; numbers are exact (integers as
  \<open>int\<close>, amounts as \<open>rat\<close>), so rounding of IEEE doubles is not part of the model.
\<close>

subsection \<open>Strings and numbers\<close>

definition is_digit :: "char \<Rightarrow> bool" where
  "is_digit c = (c \<in> set ''0123456789'')"

definition digit_val :: "char \<Rightarrow> nat" where
  "digit_val c = of_char c - 48"

definition digits_to_nat :: "string \<Rightarrow> nat" where
  "digits_to_nat s = foldl (\<lambda>a c. 10 * a + digit_val c) 0 s"

text \<open>White space as \<^verbatim>\<open>String.prototype.trim\<close> strips it, over the ASCII range.\<close>

definition is_space :: "char \<Rightarrow> bool" where
  "is_space c = (c \<in> {CHR '' '', CHR 0x09, CHR 0x0A, CHR 0x0B, CHR 0x0C, CHR 0x0D})"

definition trim :: "string \<Rightarrow> string" where
  "trim s = rev (dropWhile is_space (rev (dropWhile is_space s)))"

text \<open>\<^verbatim>\<open>if (x)\<close> on an optional string: \<^verbatim>\<open>undefined\<close> and the empty string are falsy.\<close>

fun truthy :: "string option \<Rightarrow> bool" where
  "truthy None = False"
| "truthy (Some s) = (s \<noteq> [])"

text \<open>An optional sign in front of a numeral: the sign (True for minus) and the rest.\<close>

fun split_sign :: "string \<Rightarrow> bool \<times> string" where
  "split_sign [] = (False, [])"
| "split_sign (c # r) =
     (if c = CHR ''-'' then (True, r) else if c = CHR ''+'' then (False, r) else (False, c # r))"

definition signed :: "bool \<Rightarrow> nat \<Rightarrow> int" where
  "signed neg n = (if neg then - int n else int n)"

text \<open>
  \<^verbatim>\<open>parseInt(s)\<close>: leading white space, an optional sign, then the longest run of
  decimal digits; \<open>None\<close> is \<^verbatim>\<open>NaN\<close>. The \<^verbatim>\<open>0x\<close> radix prefix is not modelled.
\<close>

definition parseInt :: "string \<Rightarrow> int option" where
  "parseInt s =
     (case split_sign (dropWhile is_space s) of (neg, r) \<Rightarrow>
        (let ds = takeWhile is_digit r
         in if ds = [] then None else Some (signed neg (digits_to_nat ds))))"

text \<open>
  \<^verbatim>\<open>ToNumber\<close> of a string, which the relational operators apply when the other
  operand is a number: the trimmed string is read as a whole; the empty string is 0. \<open>None\<close>
  is \<^verbatim>\<open>NaN\<close>; it also stands for the numeric literals that are not decimal integers
  (fractions, exponents, \<^verbatim>\<open>Infinity\<close>, radix prefixes).
\<close>

definition toNumber :: "string \<Rightarrow> int option" where
  "toNumber s =
     (let t = trim s in
      if t = [] then Some 0
      else case split_sign t of (neg, r) \<Rightarrow>
        if r \<noteq> [] \<and> list_all is_digit r then Some (signed neg (digits_to_nat r)) else None)"

text \<open>
  \<^verbatim>\<open>a < b\<close>, \<^verbatim>\<open>a > b\<close>, \<^verbatim>\<open>a >= b\<close> and \<^verbatim>\<open>a <= b\<close> between a value that is a
  string or a number and a number: the string goes through \<^verbatim>\<open>ToNumber\<close>, and every
  comparison with \<^verbatim>\<open>NaN\<close> is false.
\<close>

datatype jsval = Str string | Num int

fun to_number :: "jsval \<Rightarrow> int option" where
  "to_number (Str s) = toNumber s"
| "to_number (Num n) = Some n"

definition js_lt :: "jsval \<Rightarrow> int \<Rightarrow> bool" where
  "js_lt a n = (case to_number a of Some k \<Rightarrow> k < n | None \<Rightarrow> False)"

definition js_gt :: "jsval \<Rightarrow> int \<Rightarrow> bool" where
  "js_gt a n = (case to_number a of Some k \<Rightarrow> n < k | None \<Rightarrow> False)"

definition js_ge :: "jsval \<Rightarrow> int \<Rightarrow> bool" where
  "js_ge a n = (case to_number a of Some k \<Rightarrow> n \<le> k | None \<Rightarrow> False)"

definition js_le :: "jsval \<Rightarrow> int \<Rightarrow> bool" where
  "js_le a n = (case to_number a of Some k \<Rightarrow> k \<le> n | None \<Rightarrow> False)"

text \<open>\<^verbatim>\<open>parseInt(v)\<close> of a string or a number (an integer is its own value).\<close>

fun parseInt_val :: "jsval \<Rightarrow> int option" where
  "parseInt_val (Str s) = parseInt s"
| "parseInt_val (Num n) = Some n"

text \<open>\<^verbatim>\<open>Math.ceil(a / b)\<close> on integers, computed exactly.\<close>

definition math_ceil_div :: "int \<Rightarrow> int \<Rightarrow> int" where
  "math_ceil_div a b = \<lceil>(of_int a :: rat) / of_int b\<rceil>"

subsection \<open>Dates\<close>

text \<open>
  A \<^verbatim>\<open>Date\<close> is an instant; the model holds it as its UTC calendar fields (year,
  month, day, and the milliseconds since midnight), which is what \<^verbatim>\<open>$year\<close> and
  \<^verbatim>\<open>$month\<close> read, and orders instants field by field.
  \<^verbatim>\<open>new Date(s)\<close> is modelled on the ISO date-only form \<^verbatim>\<open>YYYY-MM-DD\<close>, which
  ECMAScript reads as midnight UTC of that day; every other string is \<open>Invalid_Date\<close>
  here (the date-time forms are outside the model).
\<close>

record instant =
  yr :: int
  mon :: nat
  dy :: nat
  msec :: int

datatype jsdate = Invalid_Date | Date instant

definition date_le :: "instant \<Rightarrow> instant \<Rightarrow> bool" where
  "date_le a b =
     (yr a < yr b
      \<or> (yr a = yr b
          \<and> (mon a < mon b
               \<or> (mon a = mon b
                   \<and> (dy a < dy b \<or> (dy a = dy b \<and> msec a \<le> msec b))))))"

definition leap_year :: "nat \<Rightarrow> bool" where
  "leap_year y = (y mod 4 = 0 \<and> (y mod 100 \<noteq> 0 \<or> y mod 400 = 0))"

definition days_in_month :: "nat \<Rightarrow> nat \<Rightarrow> nat" where
  "days_in_month y m =
     (if m = 2 then (if leap_year y then 29 else 28)
      else if m = 4 \<or> m = 6 \<or> m = 9 \<or> m = 11 then 30 else 31)"

definition newDate :: "string \<Rightarrow> jsdate" where
  "newDate s =
     (if length s = 10 \<and> s ! 4 = CHR ''-'' \<and> s ! 7 = CHR ''-''
         \<and> list_all is_digit (take 4 s) \<and> list_all is_digit (take 2 (drop 5 s))
         \<and> list_all is_digit (drop 8 s)
      then (let y = digits_to_nat (take 4 s); m = digits_to_nat (take 2 (drop 5 s));
                d = digits_to_nat (drop 8 s)
            in if 1 \<le> m \<and> m \<le> 12 \<and> 1 \<le> d \<and> d \<le> days_in_month y m
               then Date \<lparr>yr = int y, mon = m, dy = d, msec = 0\<rparr> else Invalid_Date)
      else Invalid_Date)"

section \<open>The data model\<close>

text \<open>
  The fields of \<^verbatim>\<open>models/Transaction.js\<close> that the controllers read and write.
  Identifiers (\<^verbatim>\<open>_id\<close>, \<^verbatim>\<open>userId\<close>) are ObjectIds in their 24-digit hexadecimal
  form. The schema's enum on \<^verbatim>\<open>type\<close> is the datatype \<open>txn_type\<close>. The optional
  fields of the schema that no controller touches (tags, notes, payment method, recurrence)
  and the timestamps Mongoose keeps by itself are not part of the record.
\<close>

type_synonym oid = string

datatype txn_type = Income | Expense

fun type_name :: "txn_type \<Rightarrow> string" where
  "type_name Income = ''Income''"
| "type_name Expense = ''Expense''"

definition type_of_name :: "string \<Rightarrow> txn_type option" where
  "type_of_name s =
     (if s = ''Income'' then Some Income else if s = ''Expense'' then Some Expense else None)"

record transaction =
  doc_id :: oid
  userId :: oid
  date :: instant
  description :: string
  amount :: rat
  category :: string
  ttype :: txn_type


section \<open>Requests, validation chains and responses\<close>

text \<open>
  The query string: every parameter is absent or a string (a parameter given more than
  once, which Express parses to an array, is outside the model).
\<close>

record query_params =
  q_startDate :: "string option"
  q_endDate :: "string option"
  q_category :: "string option"
  q_type :: "string option"
  q_description :: "string option"
  q_page :: "string option"
  q_limit :: "string option"
  q_sortBy :: "string option"
  q_sortOrder :: "string option"
  q_year :: "string option"

text \<open>
  The JSON body of an update. The string fields are JSON strings; \<open>b_amount\<close> is a JSON
  number (a body that sends the amount as a string is outside the model).
\<close>

record body_fields =
  b_date :: "string option"
  b_description :: "string option"
  b_amount :: "rat option"
  b_category :: "string option"
  b_type :: "string option"

record verror =
  param :: string
  msg :: string

text \<open>
  A request as a controller sees it: \<^verbatim>\<open>req.user.userId\<close> (set by the authentication
  middleware from the token), \<^verbatim>\<open>req.params.id\<close>, \<^verbatim>\<open>req.query\<close>, \<^verbatim>\<open>req.body\<close>,
  and the errors the validation chains of the route have recorded, which
  \<^verbatim>\<open>validationResult(req)\<close> reads.
\<close>

record request =
  user_userId :: oid
  params_id :: string
  query :: query_params
  body :: body_fields
  validationResult :: "verror list"

subsection \<open>The validators of express-validator\<close>

definition isInt :: "string \<Rightarrow> int option \<Rightarrow> int option \<Rightarrow> bool" where
  "isInt s mn mx =
     (case split_sign s of (neg, r) \<Rightarrow>
        r \<noteq> [] \<and> list_all is_digit r
        \<and> (case mn of None \<Rightarrow> True | Some m \<Rightarrow> js_ge (Str s) m)
        \<and> (case mx of None \<Rightarrow> True | Some m \<Rightarrow> js_le (Str s) m))"

definition isIn :: "string \<Rightarrow> string list \<Rightarrow> bool" where
  "isIn s options = (s \<in> set options)"

definition isLength :: "string \<Rightarrow> nat \<Rightarrow> nat \<Rightarrow> bool" where
  "isLength s mn mx = (mn \<le> length s \<and> length s \<le> mx)"

definition is_hex_digit :: "char \<Rightarrow> bool" where
  "is_hex_digit c = (c \<in> set ''0123456789abcdefABCDEF'')"

definition isMongoId :: "string \<Rightarrow> bool" where
  "isMongoId s = (length s = 24 \<and> list_all is_hex_digit s)"

text \<open>\<^verbatim>\<open>isISO8601\<close>, on the date-only form that \<open>newDate\<close> models.\<close>

definition isISO8601 :: "string \<Rightarrow> bool" where
  "isISO8601 s = (newDate s \<noteq> Invalid_Date)"

text \<open>\<^verbatim>\<open>isFloat({ min: 0.01 })\<close> on a JSON number.\<close>

definition isFloat_min :: "rat \<Rightarrow> rat \<Rightarrow> bool" where
  "isFloat_min a mn = (mn \<le> a)"

text \<open>
  One chain \<^verbatim>\<open>field.optional().validator().withMessage(m)\<close>: no error when the field
  is \<^verbatim>\<open>undefined\<close> or the validator accepts it.
\<close>

definition optional :: "'a option \<Rightarrow> ('a \<Rightarrow> bool) \<Rightarrow> string \<Rightarrow> string \<Rightarrow> verror list" where
  "optional v ok p m =
     (case v of None \<Rightarrow> [] | Some x \<Rightarrow> if ok x then [] else [\<lparr>param = p, msg = m\<rparr>])"

definition required :: "bool \<Rightarrow> string \<Rightarrow> string \<Rightarrow> verror list" where
  "required ok p m = (if ok then [] else [\<lparr>param = p, msg = m\<rparr>])"

subsection \<open>The validation chains of the routes\<close>

text \<open>
  \<^verbatim>\<open>queryValidation\<close>: the six chains, in order. The \<^verbatim>\<open>trim()\<close> sanitizer of the
  category chain replaces the value in \<^verbatim>\<open>req.query\<close>.
\<close>

definition queryValidation :: "request \<Rightarrow> request" where
  "queryValidation req =
     (let q = query req;
          cat = map_option trim (q_category q)
      in req\<lparr>query := q\<lparr>q_category := cat\<rparr>,
             validationResult := validationResult req
               @ optional (q_startDate q) isISO8601 ''startDate'' ''Valid start date required''
               @ optional (q_endDate q) isISO8601 ''endDate'' ''Valid end date required''
               @ optional cat (\<lambda>s. isLength s 0 50) ''category'' ''Category too long''
               @ optional (q_type q) (\<lambda>s. isIn s [''Income'', ''Expense''])
                   ''type'' ''Type must be Income or Expense''
               @ optional (q_page q) (\<lambda>s. isInt s (Some 1) None)
                   ''page'' ''Page must be a positive integer''
               @ optional (q_limit q) (\<lambda>s. isInt s (Some 1) (Some 100))
                   ''limit'' ''Limit must be between 1 and 100''\<rparr>)"

definition idValidation :: "request \<Rightarrow> request" where
  "idValidation req =
     req\<lparr>validationResult := validationResult req
           @ required (isMongoId (params_id req)) ''id'' ''Invalid transaction ID''\<rparr>"

text \<open>
  \<^verbatim>\<open>updateTransactionValidation\<close>: the five optional chains; the description and the
  category are trimmed in \<^verbatim>\<open>req.body\<close>.
\<close>

definition updateTransactionValidation :: "request \<Rightarrow> request" where
  "updateTransactionValidation req =
     (let b = body req;
          desc = map_option trim (b_description b);
          cat = map_option trim (b_category b)
      in req\<lparr>body := b\<lparr>b_description := desc, b_category := cat\<rparr>,
             validationResult := validationResult req
               @ optional (b_date b) isISO8601 ''date'' ''Valid date required''
               @ optional desc (\<lambda>s. isLength s 1 200)
                   ''description'' ''Description must be less than 200 characters''
               @ optional (b_amount b) (\<lambda>a. isFloat_min a (1 / 100))
                   ''amount'' ''Amount must be a positive number with at least 0.01''
               @ optional cat (\<lambda>s. isLength s 1 50)
                   ''category'' ''Category must be less than 50 characters''
               @ optional (b_type b) (\<lambda>s. isIn s [''Income'', ''Expense''])
                   ''type'' ''Type must be Income or Expense''\<rparr>)"

subsection \<open>Responses\<close>

text \<open>
  The envelope \<^verbatim>\<open>{success, message, errors, data}\<close> with its HTTP status;
  \<open>payload\<close> is the \<^verbatim>\<open>data\<close> field.
\<close>

record 'd response =
  status :: nat
  success :: bool
  message :: "string option"
  errors :: "verror list option"
  payload :: "'d option"

definition validation_failed :: "verror list \<Rightarrow> 'd response" where
  "validation_failed es =
     \<lparr>status = 400, success = False, message = Some ''Validation failed'',
      errors = Some es, payload = None\<rparr>"

definition not_found :: "'d response" where
  "not_found =
     \<lparr>status = 404, success = False, message = Some ''Transaction not found'',
      errors = None, payload = None\<rparr>"

definition server_error :: "string \<Rightarrow> 'd response" where
  "server_error m =
     \<lparr>status = 500, success = False, message = Some m, errors = None, payload = None\<rparr>"

definition ok :: "string option \<Rightarrow> 'd \<Rightarrow> 'd response" where
  "ok m d = \<lparr>status = 200, success = True, message = m, errors = None, payload = Some d\<rparr>"

section \<open>The document store\<close>

text \<open>
  The collection is the list of its documents. A filter is the object the controllers
  build: every key is optional, and a document matches when it satisfies every key that
  is there. \<open>f_category\<close> and \<open>f_description\<close> are the \<^verbatim>\<open>$regex\<close> keys with
  option \<^verbatim>\<open>i\<close>; the pattern is matched as a literal, case-insensitive substring
  (regular-expression metacharacters are not interpreted).
\<close>

record mongo_filter =
  f_id :: "oid option"
  f_userId :: "oid option"
  f_date_gte :: "jsdate option"
  f_date_lte :: "jsdate option"
  f_category :: "string option"
  f_type :: "string option"
  f_description :: "string option"

definition owner_filter :: "oid \<Rightarrow> mongo_filter" where
  "owner_filter u =
     \<lparr>f_id = None, f_userId = Some u, f_date_gte = None, f_date_lte = None,
      f_category = None, f_type = None, f_description = None\<rparr>"

definition lower :: "char \<Rightarrow> char" where
  "lower c = (let n = (of_char c :: nat) in if 65 \<le> n \<and> n \<le> 90 then char_of (n + 32) else c)"

definition regex_i :: "string \<Rightarrow> string \<Rightarrow> bool" where
  "regex_i pat s =
     (let p = map lower pat; t = map lower s
      in list_ex (\<lambda>i. take (length p) (drop i t) = p) [0..<Suc (length t)])"

fun date_bound :: "jsdate option \<Rightarrow> (instant \<Rightarrow> bool) \<Rightarrow> bool" where
  "date_bound (Some (Date d)) P = P d"
| "date_bound _ P = True"

fun opt_key :: "'a option \<Rightarrow> ('a \<Rightarrow> bool) \<Rightarrow> bool" where
  "opt_key None P = True"
| "opt_key (Some x) P = P x"

definition matches :: "mongo_filter \<Rightarrow> transaction \<Rightarrow> bool" where
  "matches f t =
     (opt_key (f_id f) (\<lambda>i. doc_id t = i)
      \<and> opt_key (f_userId f) (\<lambda>u. userId t = u)
      \<and> date_bound (f_date_gte f) (\<lambda>d. date_le d (date t))
      \<and> date_bound (f_date_lte f) (\<lambda>d. date_le (date t) d)
      \<and> opt_key (f_category f) (\<lambda>p. regex_i p (category t))
      \<and> opt_key (f_type f) (\<lambda>s. type_name (ttype t) = s)
      \<and> opt_key (f_description f) (\<lambda>p. regex_i p (description t)))"

text \<open>
  What the store raises; every controller catches it and answers 500. A filter is cast
  before the query runs: an \<^verbatim>\<open>_id\<close> that is no ObjectId and an Invalid Date are
  refused.
\<close>

datatype store_error = CastError | ValidationError | RangeError

definition castable :: "mongo_filter \<Rightarrow> bool" where
  "castable f =
     (opt_key (f_id f) isMongoId
      \<and> f_date_gte f \<noteq> Some Invalid_Date \<and> f_date_lte f \<noteq> Some Invalid_Date)"

definition countDocuments :: "mongo_filter \<Rightarrow> transaction list \<Rightarrow> store_error + int" where
  "countDocuments f db =
     (if castable f then Inr (int (length (filter (matches f) db))) else Inl CastError)"

definition findOne :: "mongo_filter \<Rightarrow> transaction list \<Rightarrow> store_error + transaction option" where
  "findOne f db = (if castable f then Inr (find (matches f) db) else Inl CastError)"

subsection \<open>Sorting, skipping and limiting a query\<close>

fun str_le :: "string \<Rightarrow> string \<Rightarrow> bool" where
  "str_le [] t = True"
| "str_le (a # s) [] = False"
| "str_le (a # s) (b # t) =
     ((of_char a :: nat) < of_char b \<or> (a = b \<and> str_le s t))"

text \<open>
  The order \<^verbatim>\<open>sort({ [sortBy]: 1 })\<close> puts two documents in. A path the documents do
  not have compares equal on all of them.
\<close>

definition field_le :: "string \<Rightarrow> transaction \<Rightarrow> transaction \<Rightarrow> bool" where
  "field_le sortBy a b =
     (if sortBy = ''date'' then date_le (date a) (date b)
      else if sortBy = ''amount'' then amount a \<le> amount b
      else if sortBy = ''description'' then str_le (description a) (description b)
      else if sortBy = ''category'' then str_le (category a) (category b)
      else if sortBy = ''type'' then str_le (type_name (ttype a)) (type_name (ttype b))
      else if sortBy = ''_id'' then str_le (doc_id a) (doc_id b)
      else if sortBy = ''userId'' then str_le (userId a) (userId b)
      else True)"

fun insert_by :: "('a \<Rightarrow> 'a \<Rightarrow> bool) \<Rightarrow> 'a \<Rightarrow> 'a list \<Rightarrow> 'a list" where
  "insert_by le x [] = [x]"
| "insert_by le x (y # ys) = (if le x y then x # y # ys else y # insert_by le x ys)"

definition sort_by :: "('a \<Rightarrow> 'a \<Rightarrow> bool) \<Rightarrow> 'a list \<Rightarrow> 'a list" where
  "sort_by le xs = foldr (insert_by le) xs []"

text \<open>\<^verbatim>\<open>sortObj[sortBy] = sortOrder === 'desc' ? -1 : 1\<close>, applied to a result.\<close>

definition sort_docs :: "string \<Rightarrow> string \<Rightarrow> transaction list \<Rightarrow> transaction list" where
  "sort_docs sortBy sortOrder xs =
     (if sortOrder = ''desc'' then sort_by (\<lambda>a b. field_le sortBy b a) xs
      else sort_by (field_le sortBy) xs)"

text \<open>\<^verbatim>\<open>limit(0)\<close> is no limit; a negative limit is its absolute value.\<close>

definition limit_docs :: "int \<Rightarrow> 'a list \<Rightarrow> 'a list" where
  "limit_docs n xs = (if n = 0 then xs else take (nat \<bar>n\<bar>) xs)"

text \<open>\<^verbatim>\<open>Transaction.find(filter).sort(sortObj).skip(skip).limit(limit)\<close>.\<close>

definition find_sort_skip_limit ::
  "mongo_filter \<Rightarrow> string \<Rightarrow> string \<Rightarrow> int \<Rightarrow> int \<Rightarrow> transaction list
     \<Rightarrow> store_error + transaction list" where
  "find_sort_skip_limit f sortBy sortOrder skip n db =
     (if \<not> castable f then Inl CastError
      else if skip < 0 then Inl RangeError
      else Inr (limit_docs n (drop (nat skip) (sort_docs sortBy sortOrder (filter (matches f) db)))))"

subsection \<open>Update and delete of one document\<close>

text \<open>\<^verbatim>\<open>updateData\<close>: the keys the controller has set.\<close>

record update_data =
  u_date :: "jsdate option"
  u_description :: "string option"
  u_amount :: "rat option"
  u_category :: "string option"
  u_type :: "string option"

text \<open>
  \<^verbatim>\<open>runValidators: true\<close>: the update is cast to the schema and the validators of the
  paths it sets are run, before the query.
\<close>

definition update_castable :: "update_data \<Rightarrow> bool" where
  "update_castable u = (u_date u \<noteq> Some Invalid_Date)"

definition update_valid :: "update_data \<Rightarrow> bool" where
  "update_valid u =
     (opt_key (u_description u) (\<lambda>s. trim s \<noteq> [] \<and> length (trim s) \<le> 200)
      \<and> opt_key (u_amount u) (\<lambda>a. 1 / 100 \<le> a \<and> 0 < a)
      \<and> opt_key (u_category u) (\<lambda>s. trim s \<noteq> [] \<and> length (trim s) \<le> 50)
      \<and> opt_key (u_type u) (\<lambda>s. type_of_name s \<noteq> None))"

text \<open>The document after \<^verbatim>\<open>$set\<close> of the keys of the update; the schema trims strings.\<close>

definition apply_update :: "update_data \<Rightarrow> transaction \<Rightarrow> transaction" where
  "apply_update u t =
     t\<lparr>date := (case u_date u of Some (Date d) \<Rightarrow> d | _ \<Rightarrow> date t),
       description := (case u_description u of Some s \<Rightarrow> trim s | None \<Rightarrow> description t),
       amount := (case u_amount u of Some a \<Rightarrow> a | None \<Rightarrow> amount t),
       category := (case u_category u of Some s \<Rightarrow> trim s | None \<Rightarrow> category t),
       ttype := (case u_type u of
                   Some s \<Rightarrow> (case type_of_name s of Some ty \<Rightarrow> ty | None \<Rightarrow> ttype t)
                 | None \<Rightarrow> ttype t)\<rparr>"

fun update_first :: "('a \<Rightarrow> bool) \<Rightarrow> ('a \<Rightarrow> 'a) \<Rightarrow> 'a list \<Rightarrow> 'a list" where
  "update_first P g [] = []"
| "update_first P g (x # xs) = (if P x then g x # xs else x # update_first P g xs)"

fun remove_first :: "('a \<Rightarrow> bool) \<Rightarrow> 'a list \<Rightarrow> 'a list" where
  "remove_first P [] = []"
| "remove_first P (x # xs) = (if P x then xs else x # remove_first P xs)"

text \<open>
  \<^verbatim>\<open>findOneAndUpdate(filter, update, { new: true, runValidators: true })\<close>: the updated
  document (\<^verbatim>\<open>null\<close> when none matches) and the collection afterwards.
\<close>

definition findOneAndUpdate ::
  "mongo_filter \<Rightarrow> update_data \<Rightarrow> transaction list
     \<Rightarrow> store_error + (transaction option \<times> transaction list)" where
  "findOneAndUpdate f u db =
     (if \<not> castable f \<or> \<not> update_castable u then Inl CastError
      else if \<not> update_valid u then Inl ValidationError
      else Inr (map_option (apply_update u) (find (matches f) db),
                update_first (matches f) (apply_update u) db))"

text \<open>\<^verbatim>\<open>findOneAndDelete(filter)\<close>: the deleted document and the collection afterwards.\<close>

definition findOneAndDelete ::
  "mongo_filter \<Rightarrow> transaction list \<Rightarrow> store_error + (transaction option \<times> transaction list)" where
  "findOneAndDelete f db =
     (if \<not> castable f then Inl CastError
      else Inr (find (matches f) db, remove_first (matches f) db))"

subsection \<open>Aggregation stages\<close>

text \<open>
  \<^verbatim>\<open>$match\<close> keeps the matching documents. \<^verbatim>\<open>$group\<close> makes one entry per key,
  with \<^verbatim>\<open>$sum\<close> of the amounts, the count and \<^verbatim>\<open>$avg\<close>; the store leaves the order
  of the groups open, the model lists them as \<open>remdups\<close> lists the keys.
\<close>

definition match_stage :: "mongo_filter \<Rightarrow> transaction list \<Rightarrow> store_error + transaction list" where
  "match_stage f db = (if castable f then Inr (filter (matches f) db) else Inl CastError)"

record 'k group_stat =
  g_id :: 'k
  g_total :: rat
  g_count :: nat
  g_average :: rat

definition group_of :: "(transaction \<Rightarrow> 'k) \<Rightarrow> transaction list \<Rightarrow> 'k \<Rightarrow> 'k group_stat" where
  "group_of key docs k =
     (let g = filter (\<lambda>d. key d = k) docs
      in \<lparr>g_id = k, g_total = sum_list (map amount g), g_count = length g,
          g_average = sum_list (map amount g) / of_nat (length g)\<rparr>)"

definition group_stage :: "(transaction \<Rightarrow> 'k) \<Rightarrow> transaction list \<Rightarrow> 'k group_stat list" where
  "group_stage key docs = map (group_of key docs) (remdups (map key docs))"

section \<open>The controllers\<close>

subsection \<open>The filtered, paginated list\<close>

text \<open>
  The date range that \<^verbatim>\<open>getTransactions\<close>, \<^verbatim>\<open>getTransactionStats\<close> and
  \<^verbatim>\<open>getCategoryStats\<close> each add to their filter:
  \<^verbatim>\<open>if (startDate || endDate) { filter.date = {}; if (startDate) ...; if (endDate) ... }\<close>.
\<close>

definition date_range :: "string option \<Rightarrow> string option \<Rightarrow> mongo_filter \<Rightarrow> mongo_filter" where
  "date_range startDate endDate f =
     (if truthy startDate \<or> truthy endDate
      then f\<lparr>f_date_gte := (if truthy startDate then map_option newDate startDate else None),
             f_date_lte := (if truthy endDate then map_option newDate endDate else None)\<rparr>
      else f)"

definition getTransactions_filter :: "request \<Rightarrow> mongo_filter" where
  "getTransactions_filter req =
     (let q = query req;
          f0 = owner_filter (user_userId req);
          f1 = date_range (q_startDate q) (q_endDate q) f0;
          f2 = (if truthy (q_category q) then f1\<lparr>f_category := q_category q\<rparr> else f1);
          f3 = (if truthy (q_type q) then f2\<lparr>f_type := q_type q\<rparr> else f2)
      in if truthy (q_description q) then f3\<lparr>f_description := q_description q\<rparr> else f3)"

record page_info =
  currentPage :: int
  totalPages :: int
  totalTransactions :: int
  hasNextPage :: bool
  hasPrevPage :: bool

record list_data =
  transactions :: "transaction list"
  pagination :: page_info

text \<open>
  \<^verbatim>\<open>getTransactions\<close>. \<open>page\<close> and \<open>limit\<close> are the query strings, or the numbers
  1 and 10 of the destructuring defaults. Arithmetic on \<^verbatim>\<open>NaN\<close> is not modelled: where
  \<^verbatim>\<open>parseInt\<close> gives \<^verbatim>\<open>NaN\<close> the model answers 500, and no request that passes
  \<open>queryValidation\<close> gets there.
\<close>

definition page_arg :: "query_params \<Rightarrow> jsval" where
  "page_arg q = (case q_page q of None \<Rightarrow> Num 1 | Some s \<Rightarrow> Str s)"

definition limit_arg :: "query_params \<Rightarrow> jsval" where
  "limit_arg q = (case q_limit q of None \<Rightarrow> Num 10 | Some s \<Rightarrow> Str s)"

definition getTransactions :: "request \<Rightarrow> transaction list \<Rightarrow> list_data response" where
  "getTransactions req db =
     (if validationResult req \<noteq> [] then validation_failed (validationResult req)
      else
        (let q = query req;
             page = page_arg q;
             limit = limit_arg q;
             sortBy = (case q_sortBy q of None \<Rightarrow> ''date'' | Some s \<Rightarrow> s);
             sortOrder = (case q_sortOrder q of None \<Rightarrow> ''desc'' | Some s \<Rightarrow> s);
             f = getTransactions_filter req
         in case (parseInt_val page, parseInt_val limit) of
              (Some p, Some l) \<Rightarrow>
                (case find_sort_skip_limit f sortBy sortOrder ((p - 1) * l) l db of
                   Inl e \<Rightarrow> server_error ''Server error while fetching transactions''
                 | Inr txs \<Rightarrow>
                     (case countDocuments f db of
                        Inl e \<Rightarrow> server_error ''Server error while fetching transactions''
                      | Inr n \<Rightarrow>
                          ok None
                            \<lparr>transactions = txs,
                             pagination =
                               \<lparr>currentPage = p,
                                totalPages = math_ceil_div n l,
                                totalTransactions = n,
                                hasNextPage = js_lt page (math_ceil_div n l),
                                hasPrevPage = js_gt page 1\<rparr>\<rparr>))
            | _ \<Rightarrow> server_error ''Server error while fetching transactions''))"

subsection \<open>Lookup, update and delete of one record\<close>

text \<open>The filter \<^verbatim>\<open>{ _id: req.params.id, userId: req.user.userId }\<close> of all three.\<close>

definition id_owner_filter :: "request \<Rightarrow> mongo_filter" where
  "id_owner_filter req = (owner_filter (user_userId req))\<lparr>f_id := Some (params_id req)\<rparr>"

definition getTransaction :: "request \<Rightarrow> transaction list \<Rightarrow> transaction response" where
  "getTransaction req db =
     (if validationResult req \<noteq> [] then validation_failed (validationResult req)
      else case findOne (id_owner_filter req) db of
             Inl e \<Rightarrow> server_error ''Server error while fetching transaction''
           | Inr None \<Rightarrow> not_found
           | Inr (Some t) \<Rightarrow> ok None t)"

text \<open>
  \<^verbatim>\<open>if (date) updateData.date = new Date(date)\<close> and its four siblings. A JSON number
  is truthy unless it is 0, and \<^verbatim>\<open>parseFloat\<close> of it is the number.
\<close>

definition updateData_of :: "body_fields \<Rightarrow> update_data" where
  "updateData_of b =
     \<lparr>u_date = (if truthy (b_date b) then map_option newDate (b_date b) else None),
      u_description = (if truthy (b_description b) then map_option trim (b_description b) else None),
      u_amount = (case b_amount b of None \<Rightarrow> None | Some a \<Rightarrow> if a \<noteq> 0 then Some a else None),
      u_category = (if truthy (b_category b) then map_option trim (b_category b) else None),
      u_type = (if truthy (b_type b) then b_type b else None)\<rparr>"

definition updateTransaction ::
  "request \<Rightarrow> transaction list \<Rightarrow> transaction response \<times> transaction list" where
  "updateTransaction req db =
     (if validationResult req \<noteq> [] then (validation_failed (validationResult req), db)
      else case findOneAndUpdate (id_owner_filter req) (updateData_of (body req)) db of
             Inl e \<Rightarrow> (server_error ''Server error while updating transaction'', db)
           | Inr (None, db') \<Rightarrow> (not_found, db')
           | Inr (Some t, db') \<Rightarrow> (ok (Some ''Transaction updated successfully'') t, db'))"

definition deleteTransaction ::
  "request \<Rightarrow> transaction list \<Rightarrow> transaction response \<times> transaction list" where
  "deleteTransaction req db =
     (if validationResult req \<noteq> [] then (validation_failed (validationResult req), db)
      else case findOneAndDelete (id_owner_filter req) db of
             Inl e \<Rightarrow> (server_error ''Server error while deleting transaction'', db)
           | Inr (None, db') \<Rightarrow> (not_found, db')
           | Inr (Some t, db') \<Rightarrow> (ok (Some ''Transaction deleted successfully'') t, db'))"

subsection \<open>Statistics by type\<close>

definition getTransactionStats_filter :: "request \<Rightarrow> mongo_filter" where
  "getTransactionStats_filter req =
     date_range (q_startDate (query req)) (q_endDate (query req)) (owner_filter (user_userId req))"

record type_stats =
  totalIncome :: rat
  totalExpense :: rat
  netAmount :: rat
  incomeCount :: nat
  expenseCount :: nat
  totalTransactions :: nat
  averageIncome :: rat
  averageExpense :: rat

text \<open>\<^verbatim>\<open>stats.find(s => s._id === name)?.field || 0\<close>.\<close>

definition stat_or_0 ::
  "string \<Rightarrow> (string group_stat \<Rightarrow> 'a::zero) \<Rightarrow> string group_stat list \<Rightarrow> 'a" where
  "stat_or_0 name field stats =
     (case find (\<lambda>s. g_id s = name) stats of None \<Rightarrow> 0 | Some s \<Rightarrow> field s)"

text \<open>\<^verbatim>\<open>getTransactionStats\<close> does not read \<^verbatim>\<open>validationResult(req)\<close>.\<close>

definition getTransactionStats :: "request \<Rightarrow> transaction list \<Rightarrow> type_stats response" where
  "getTransactionStats req db =
     (case match_stage (getTransactionStats_filter req) db of
        Inl e \<Rightarrow> server_error ''Server error while fetching statistics''
      | Inr docs \<Rightarrow>
          (let stats = group_stage (\<lambda>d. type_name (ttype d)) docs;
               totalIncome' = stat_or_0 ''Income'' g_total stats;
               totalExpense' = stat_or_0 ''Expense'' g_total stats;
               incomeCount' = stat_or_0 ''Income'' g_count stats;
               expenseCount' = stat_or_0 ''Expense'' g_count stats
           in ok None
                \<lparr>totalIncome = totalIncome',
                 totalExpense = totalExpense',
                 netAmount = totalIncome' - totalExpense',
                 incomeCount = incomeCount',
                 expenseCount = expenseCount',
                 totalTransactions = incomeCount' + expenseCount',
                 averageIncome = stat_or_0 ''Income'' g_average stats,
                 averageExpense = stat_or_0 ''Expense'' g_average stats\<rparr>))"

subsection \<open>Statistics by category\<close>

definition getCategoryStats_filter :: "request \<Rightarrow> mongo_filter" where
  "getCategoryStats_filter req =
     (let q = query req;
          f = date_range (q_startDate q) (q_endDate q) (owner_filter (user_userId req))
      in if truthy (q_type q) then f\<lparr>f_type := q_type q\<rparr> else f)"

record category_stat =
  c_category :: string
  c_type :: string
  c_total :: rat
  c_count :: nat
  c_average :: rat

text \<open>The pipeline \<^verbatim>\<open>$match\<close>, \<^verbatim>\<open>$group\<close> by (category, type), \<^verbatim>\<open>$sort: { total: -1 }\<close>.\<close>

definition category_pipeline ::
  "mongo_filter \<Rightarrow> transaction list \<Rightarrow> store_error + (string \<times> string) group_stat list" where
  "category_pipeline f db =
     (case match_stage f db of
        Inl e \<Rightarrow> Inl e
      | Inr docs \<Rightarrow>
          Inr (sort_key (\<lambda>g. - g_total g)
                 (group_stage (\<lambda>d. (category d, type_name (ttype d))) docs)))"

definition getCategoryStats :: "request \<Rightarrow> transaction list \<Rightarrow> category_stat list response" where
  "getCategoryStats req db =
     (case category_pipeline (getCategoryStats_filter req) db of
        Inl e \<Rightarrow> server_error ''Server error while fetching category statistics''
      | Inr categoryStats \<Rightarrow>
          ok None
            (map (\<lambda>stat. \<lparr>c_category = fst (g_id stat), c_type = snd (g_id stat),
                          c_total = g_total stat, c_count = g_count stat,
                          c_average = g_average stat\<rparr>) categoryStats))"

subsection \<open>Statistics by month\<close>

text \<open>
  \<^verbatim>\<open>if (year) { startOfYear = new Date(`${year}-01-01`); endOfYear = new Date(`${year}-12-31`);
  filter.date = { $gte: startOfYear, $lte: endOfYear } }\<close>. No validation chain reads
  \<^verbatim>\<open>year\<close>.
\<close>

definition getMonthlyStats_filter :: "request \<Rightarrow> mongo_filter" where
  "getMonthlyStats_filter req =
     (let f = owner_filter (user_userId req)
      in case q_year (query req) of
           None \<Rightarrow> f
         | Some y \<Rightarrow>
             if y \<noteq> []
             then f\<lparr>f_date_gte := Some (newDate (y @ ''-01-01'')),
                    f_date_lte := Some (newDate (y @ ''-12-31''))\<rparr>
             else f)"

text \<open>\<^verbatim>\<open>Number.prototype.toString\<close> on integers, and \<^verbatim>\<open>padStart\<close>.\<close>

fun string_of_nat :: "nat \<Rightarrow> string" where
  "string_of_nat n =
     (if n < 10 then [''0123456789'' ! n]
      else string_of_nat (n div 10) @ [''0123456789'' ! (n mod 10)])"

declare string_of_nat.simps [simp del]

definition string_of_int :: "int \<Rightarrow> string" where
  "string_of_int i =
     (if i < 0 then CHR ''-'' # string_of_nat (nat (- i)) else string_of_nat (nat i))"

definition padStart :: "nat \<Rightarrow> char \<Rightarrow> string \<Rightarrow> string" where
  "padStart n c s = replicate (n - length s) c @ s"

text \<open>The key \<^verbatim>\<open>`${stat._id.year}-${stat._id.month.toString().padStart(2, '0')}`\<close>.\<close>

definition month_key :: "int \<Rightarrow> nat \<Rightarrow> string" where
  "month_key y m = string_of_int y @ ''-'' @ padStart 2 (CHR ''0'') (string_of_nat m)"

record month_acc =
  year :: int
  month :: nat
  income :: rat
  expense :: rat
  incomeCount :: nat
  expenseCount :: nat

record month_stat = month_acc +
  net :: rat
  totalTransactions :: nat

text \<open>
  The pipeline \<^verbatim>\<open>$match\<close>, \<^verbatim>\<open>$group\<close> by (year, month, type),
  \<^verbatim>\<open>$sort: { '_id.year': 1, '_id.month': 1 }\<close>.
\<close>

definition month_type_key :: "transaction \<Rightarrow> int \<times> nat \<times> string" where
  "month_type_key d = (yr (date d), mon (date d), type_name (ttype d))"

definition monthly_pipeline ::
  "mongo_filter \<Rightarrow> transaction list \<Rightarrow> store_error + (int \<times> nat \<times> string) group_stat list" where
  "monthly_pipeline f db =
     (case match_stage f db of
        Inl e \<Rightarrow> Inl e
      | Inr docs \<Rightarrow>
          Inr (sort_key (\<lambda>g. case g_id g of (y, m, ty) \<Rightarrow> (y, m))
                 (group_stage month_type_key docs)))"

text \<open>
  One step of the \<^verbatim>\<open>reduce\<close>. The accumulator object is the list of its properties in
  insertion order, which is the order \<^verbatim>\<open>Object.values\<close> reads them in (no key is an
  array index: each holds a \<^verbatim>\<open>-\<close>).
\<close>

definition monthly_step ::
  "(string \<times> month_acc) list \<Rightarrow> (int \<times> nat \<times> string) group_stat \<Rightarrow> (string \<times> month_acc) list" where
  "monthly_step acc stat =
     (case g_id stat of (y, m, ty) \<Rightarrow>
        (let key = month_key y m;
             acc1 = (if map_of acc key = None
                     then acc @ [(key, \<lparr>year = y, month = m, income = 0, expense = 0,
                                         incomeCount = 0, expenseCount = 0\<rparr>)]
                     else acc)
         in map (\<lambda>(k, e).
                   if k = key
                   then (k, if ty = ''Income''
                            then e\<lparr>income := g_total stat, incomeCount := g_count stat\<rparr>
                            else e\<lparr>expense := g_total stat, expenseCount := g_count stat\<rparr>)
                   else (k, e)) acc1))"

definition with_net :: "month_acc \<Rightarrow> month_stat" where
  "with_net stat =
     \<lparr>year = year stat, month = month stat, income = income stat, expense = expense stat,
      incomeCount = incomeCount stat, expenseCount = expenseCount stat,
      net = income stat - expense stat,
      totalTransactions = incomeCount stat + expenseCount stat\<rparr>"

text \<open>\<^verbatim>\<open>getMonthlyStats\<close> does not read \<^verbatim>\<open>validationResult(req)\<close> either.\<close>

definition getMonthlyStats :: "request \<Rightarrow> transaction list \<Rightarrow> month_stat list response" where
  "getMonthlyStats req db =
     (case monthly_pipeline (getMonthlyStats_filter req) db of
        Inl e \<Rightarrow> server_error ''Server error while fetching monthly statistics''
      | Inr monthlyStats \<Rightarrow>
          ok None (map (\<lambda>(k, stat). with_net stat) (foldl monthly_step [] monthlyStats)))"

section \<open>The routes\<close>

text \<open>
  \<^verbatim>\<open>routes/transaction.js\<close>: each route runs its validation chains on the incoming
  request, which has no error recorded yet, and then its controller. The authentication
  middleware \<^verbatim>\<open>verifyToken\<close> has run before: \<open>user_userId\<close> is the authenticated user.
\<close>

definition incoming :: "request \<Rightarrow> request" where
  "incoming req = req\<lparr>validationResult := []\<rparr>"

definition route_list :: "request \<Rightarrow> transaction list \<Rightarrow> list_data response" where
  "route_list req db = getTransactions (queryValidation (incoming req)) db"

definition route_stats :: "request \<Rightarrow> transaction list \<Rightarrow> type_stats response" where
  "route_stats req db = getTransactionStats (queryValidation (incoming req)) db"

definition route_stats_categories ::
  "request \<Rightarrow> transaction list \<Rightarrow> category_stat list response" where
  "route_stats_categories req db = getCategoryStats (queryValidation (incoming req)) db"

definition route_stats_monthly :: "request \<Rightarrow> transaction list \<Rightarrow> month_stat list response" where
  "route_stats_monthly req db = getMonthlyStats (queryValidation (incoming req)) db"

definition route_get :: "request \<Rightarrow> transaction list \<Rightarrow> transaction response" where
  "route_get req db = getTransaction (idValidation (incoming req)) db"

definition route_patch ::
  "request \<Rightarrow> transaction list \<Rightarrow> transaction response \<times> transaction list" where
  "route_patch req db =
     updateTransaction (updateTransactionValidation (idValidation (incoming req))) db"

definition route_delete ::
  "request \<Rightarrow> transaction list \<Rightarrow> transaction response \<times> transaction list" where
  "route_delete req db = deleteTransaction (idValidation (incoming req)) db"

section \<open>Notions the properties are stated with\<close>

text \<open>The records of a user in a collection, and the records of everybody else.\<close>

definition owned :: "oid \<Rightarrow> transaction list \<Rightarrow> transaction list" where
  "owned u db = filter (\<lambda>t. userId t = u) db"

definition others :: "oid \<Rightarrow> transaction list \<Rightarrow> transaction list" where
  "others u db = filter (\<lambda>t. userId t \<noteq> u) db"

text \<open>The records a response carries.\<close>

definition listed :: "list_data response \<Rightarrow> transaction list" where
  "listed r = (case payload r of None \<Rightarrow> [] | Some d \<Rightarrow> transactions d)"

definition returned :: "transaction response \<Rightarrow> transaction list" where
  "returned r = (case payload r of None \<Rightarrow> [] | Some t \<Rightarrow> [t])"


definition total_amount :: "transaction list \<Rightarrow> rat" where
  "total_amount docs = sum_list (map amount docs)"



definition monthly_docs :: "request \<Rightarrow> transaction list \<Rightarrow> transaction list" where
  "monthly_docs req db =
     filter (matches (getMonthlyStats_filter (queryValidation (incoming req)))) db"



text \<open>
  What an entry of the monthly accumulator holds once the group entries \<open>ps\<close> have been
  folded in, where \<open>T\<close> and \<open>C\<close> give the total and the count of a group: the values of
  the two groups of its month, 0 where a group is not among \<open>ps\<close>; and some group of its
  month is among \<open>ps\<close>.
\<close>

definition entry_ok ::
  "(int \<times> nat \<times> string \<Rightarrow> rat) \<Rightarrow> (int \<times> nat \<times> string \<Rightarrow> nat)
     \<Rightarrow> (int \<times> nat \<times> string) group_stat list \<Rightarrow> month_acc \<Rightarrow> bool" where
  "entry_ok T C ps e =
     (income e = (if (year e, month e, ''Income'') \<in> g_id ` set ps
                  then T (year e, month e, ''Income'') else 0)
      \<and> incomeCount e = (if (year e, month e, ''Income'') \<in> g_id ` set ps
                         then C (year e, month e, ''Income'') else 0)
      \<and> expense e = (if (year e, month e, ''Expense'') \<in> g_id ` set ps
                     then T (year e, month e, ''Expense'') else 0)
      \<and> expenseCount e = (if (year e, month e, ''Expense'') \<in> g_id ` set ps
                          then C (year e, month e, ''Expense'') else 0)
      \<and> (\<exists>ty. (year e, month e, ty) \<in> g_id ` set ps))"

definition month_inv ::
  "(int \<times> nat \<times> string \<Rightarrow> rat) \<Rightarrow> (int \<times> nat \<times> string \<Rightarrow> nat)
     \<Rightarrow> (int \<times> nat \<times> string) group_stat list \<Rightarrow> (string \<times> month_acc) list \<Rightarrow> bool" where
  "month_inv T C ps acc =
     (distinct (map fst acc)
      \<and> list_all (\<lambda>(k, e). k = month_key (year e) (month e) \<and> entry_ok T C ps e) acc
      \<and> list_all (\<lambda>g. case g_id g of (y, m, ty) \<Rightarrow> month_key y m \<in> fst ` set acc) ps)"

text \<open>The records of one month and type among a list.\<close>

definition in_month :: "int \<Rightarrow> nat \<Rightarrow> txn_type \<Rightarrow> transaction list \<Rightarrow> transaction list" where
  "in_month y m ty docs =
     filter (\<lambda>d. yr (date d) = y \<and> mon (date d) = m \<and> ttype d = ty) docs"


text \<open>The record a lookup, an update or a delete is aimed at: the id and the owner match.\<close>

definition is_target :: "request \<Rightarrow> transaction \<Rightarrow> bool" where
  "is_target req t = (doc_id t = params_id req \<and> userId t = user_userId req)"


section \<open>Example data\<close>

definition alice :: oid where
  "alice = ''65a000000000000000000001''"

definition bob :: oid where
  "bob = ''65b000000000000000000002''"

definition no_query :: query_params where
  "no_query =
     \<lparr>q_startDate = None, q_endDate = None, q_category = None, q_type = None,
      q_description = None, q_page = None, q_limit = None, q_sortBy = None,
      q_sortOrder = None, q_year = None\<rparr>"

definition no_body :: body_fields where
  "no_body =
     \<lparr>b_date = None, b_description = None, b_amount = None, b_category = None, b_type = None\<rparr>"

definition salary :: transaction where
  "salary =
     \<lparr>doc_id = ''aaaaaaaaaaaaaaaaaaaaaaa1'', userId = alice,
      date = \<lparr>yr = 2024, mon = 1, dy = 5, msec = 0\<rparr>, description = ''salary'',
      amount = 100, category = ''job'', ttype = Income\<rparr>"

definition groceries :: transaction where
  "groceries =
     \<lparr>doc_id = ''aaaaaaaaaaaaaaaaaaaaaaa2'', userId = alice,
      date = \<lparr>yr = 2024, mon = 1, dy = 10, msec = 0\<rparr>, description = ''groceries'',
      amount = 40, category = ''food'', ttype = Expense\<rparr>"

definition rent_of_bob :: transaction where
  "rent_of_bob =
     \<lparr>doc_id = ''bbbbbbbbbbbbbbbbbbbbbbb1'', userId = bob,
      date = \<lparr>yr = 2024, mon = 1, dy = 7, msec = 0\<rparr>, description = ''rent'',
      amount = 700, category = ''home'', ttype = Expense\<rparr>"

definition example_db :: "transaction list" where
  "example_db = [salary, rent_of_bob, groceries]"

text \<open>A request of Alice with no query, no body and the id of her salary record.\<close>

definition alice_request :: request where
  "alice_request =
     \<lparr>user_userId = alice, params_id = ''aaaaaaaaaaaaaaaaaaaaaaa1'', query = no_query,
      body = no_body, validationResult = []\<rparr>"

text \<open>Ten records of Alice, and her request for page 9 with one record per page.\<close>

definition ten_docs :: "transaction list" where
  "ten_docs = map (\<lambda>c. salary\<lparr>doc_id := replicate 23 (CHR ''a'') @ [c]\<rparr>) ''0123456789''"

definition page9_request :: request where
  "page9_request = alice_request\<lparr>query := no_query\<lparr>q_page := Some ''9'', q_limit := Some ''1''\<rparr>\<rparr>"


text \<open>A ticket Alice bought in February, the only record of that month.\<close>

definition bus_ticket :: transaction where
  "bus_ticket =
     \<lparr>doc_id = ''aaaaaaaaaaaaaaaaaaaaaaa3'', userId = alice,
      date = \<lparr>yr = 2024, mon = 2, dy = 3, msec = 0\<rparr>, description = ''bus ticket'',
      amount = 3, category = ''transport'', ttype = Expense\<rparr>"

definition february_db :: "transaction list" where
  "february_db = [bus_ticket, salary, rent_of_bob, groceries]"




text \<open>Alice's request for the category statistics of a type that does not exist.\<close>

definition bad_type_request :: request where
  "bad_type_request = alice_request\<lparr>query := no_query\<lparr>q_type := Some ''Foo''\<rparr>\<rparr>"

text \<open>
  Alice's request for the monthly statistics of 2024, and two records of hers on
  2024-12-31: one at noon UTC, one at midnight UTC.
\<close>

definition year_2024_request :: request where
  "year_2024_request = alice_request\<lparr>query := no_query\<lparr>q_year := Some ''2024''\<rparr>\<rparr>"

definition new_years_eve_noon :: transaction where
  "new_years_eve_noon =
     \<lparr>doc_id = ''aaaaaaaaaaaaaaaaaaaaaaa4'', userId = alice,
      date = \<lparr>yr = 2024, mon = 12, dy = 31, msec = 43200000\<rparr>, description = ''fireworks'',
      amount = 25, category = ''party'', ttype = Expense\<rparr>"

definition new_years_eve_midnight :: transaction where
  "new_years_eve_midnight =
     \<lparr>doc_id = ''aaaaaaaaaaaaaaaaaaaaaaa5'', userId = alice,
      date = \<lparr>yr = 2024, mon = 12, dy = 31, msec = 0\<rparr>, description = ''champagne'',
      amount = 30, category = ''party'', ttype = Expense\<rparr>"

section \<open>Properties\<close>

subsection \<open>Numerals that pass \<open>isInt\<close>\<close>


lemma trim_id: "s \<noteq> [] \<Longrightarrow> \<not> is_space (hd s) \<Longrightarrow> \<not> is_space (last s) \<Longrightarrow> trim s = s"
proof -
  assume a: "s \<noteq> []" "\<not> is_space (hd s)" "\<not> is_space (last s)"
  then have 1: "dropWhile is_space s = s" by (cases s) auto
  from a have "rev s \<noteq> []" "\<not> is_space (hd (rev s))" by (auto simp: hd_rev)
  then have 2: "dropWhile is_space (rev s) = rev s" by (cases "rev s") auto
  show ?thesis by (simp add: trim_def 1 2)
qed





subsection \<open>Requests that pass \<open>queryValidation\<close>\<close>




lemma payload_simps [simp]:
  "payload (validation_failed es) = None"
  "payload (server_error m) = None"
  "payload not_found = None"
  "payload (ok mo d) = Some d"
  by (simp_all add: validation_failed_def server_error_def not_found_def ok_def)



subsection \<open>Owner scoping\<close>

lemma matches_owner: "f_userId f = Some u \<Longrightarrow> matches f t \<Longrightarrow> userId t = u"
  by (simp add: matches_def)

lemma filter_matches_owned:
  "f_userId f = Some u \<Longrightarrow> filter (matches f) (owned u db) = filter (matches f) db"
  unfolding owned_def by (induction db) (auto dest: matches_owner)

lemma find_matches_owned:
  "f_userId f = Some u \<Longrightarrow> find (matches f) (owned u db) = find (matches f) db"
  unfolding owned_def by (induction db) (auto dest: matches_owner)

lemma date_range_userId [simp]: "f_userId (date_range a b f) = f_userId f"
  by (simp add: date_range_def)

lemma user_queryValidation [simp]: "user_userId (queryValidation r) = user_userId r"
  by (simp add: queryValidation_def Let_def)

lemma user_idValidation [simp]: "user_userId (idValidation r) = user_userId r"
  by (simp add: idValidation_def)

lemma user_updateTransactionValidation [simp]:
  "user_userId (updateTransactionValidation r) = user_userId r"
  by (simp add: updateTransactionValidation_def Let_def)

lemma user_incoming [simp]: "user_userId (incoming r) = user_userId r"
  by (simp add: incoming_def)

lemma filter_userId [simp]:
  "f_userId (getTransactions_filter r) = Some (user_userId r)"
  "f_userId (id_owner_filter r) = Some (user_userId r)"
  "f_userId (getTransactionStats_filter r) = Some (user_userId r)"
  "f_userId (getCategoryStats_filter r) = Some (user_userId r)"
  "f_userId (getMonthlyStats_filter r) = Some (user_userId r)"
  by (simp_all add: getTransactions_filter_def id_owner_filter_def getTransactionStats_filter_def
      getCategoryStats_filter_def getMonthlyStats_filter_def owner_filter_def Let_def
      split: option.splits)

lemma set_insert_by [simp]: "set (insert_by le x xs) = insert x (set xs)"
  by (induction xs) auto

lemma set_sort_by [simp]: "set (sort_by le xs) = set xs"
  unfolding sort_by_def by (induction xs) auto

lemma set_sort_docs [simp]: "set (sort_docs b ord xs) = set xs"
  by (simp add: sort_docs_def)

lemma set_limit_docs: "set (limit_docs n xs) \<subseteq> set xs"
  by (auto simp: limit_docs_def dest: in_set_takeD)

lemma find_sort_skip_limit_subset:
  assumes "find_sort_skip_limit f b ord sk n db = Inr txs" "t \<in> set txs"
  shows "t \<in> set db \<and> matches f t"
proof -
  from assms(1) have "txs = limit_docs n (drop (nat sk) (sort_docs b ord (filter (matches f) db)))"
    by (auto simp: find_sort_skip_limit_def split: if_splits)
  with assms(2) have "t \<in> set (drop (nat sk) (sort_docs b ord (filter (matches f) db)))"
    by (simp add: limit_docs_def split: if_splits) (erule in_set_takeD)
  then have "t \<in> set (sort_docs b ord (filter (matches f) db))" by (rule in_set_dropD)
  then show ?thesis by simp
qed

lemma list_returns_owned:
  assumes "payload (route_list req db) = Some d" "t \<in> set (transactions d)"
  shows "userId t = user_userId req \<and> t \<in> set db"
proof -
  let ?r = "queryValidation (incoming req)"
  from assms(1) obtain b ord sk n where
    "find_sort_skip_limit (getTransactions_filter ?r) b ord sk n db = Inr (transactions d)"
    by (auto simp: route_list_def getTransactions_def Let_def split: if_splits option.splits sum.splits)
  from find_sort_skip_limit_subset[OF this assms(2)] show ?thesis
    by (auto dest: matches_owner[rotated])
qed

lemma getTransactions_reads_owned:
  "getTransactions r (owned (user_userId r) db) = getTransactions r db"
  unfolding getTransactions_def find_sort_skip_limit_def countDocuments_def Let_def
    filter_matches_owned[OF filter_userId(1)] ..

lemma list_reads_owned:
  "route_list req (owned (user_userId req) db) = route_list req db"
  unfolding route_list_def
  using getTransactions_reads_owned[of "queryValidation (incoming req)" db] by simp

lemma get_returns_owned:
  assumes "payload (route_get req db) = Some t"
  shows "userId t = user_userId req \<and> t \<in> set db"
proof -
  let ?r = "idValidation (incoming req)"
  from assms have "find (matches (id_owner_filter ?r)) db = Some t"
    by (auto simp: route_get_def getTransaction_def findOne_def split: if_splits option.splits sum.splits)
  then have "matches (id_owner_filter ?r) t \<and> t \<in> set db"
    by (auto simp: find_Some_iff)
  then show ?thesis by (auto dest: matches_owner[rotated])
qed

lemma getTransaction_reads_owned:
  "getTransaction r (owned (user_userId r) db) = getTransaction r db"
  unfolding getTransaction_def findOne_def find_matches_owned[OF filter_userId(2)] ..

lemma get_reads_owned:
  "route_get req (owned (user_userId req) db) = route_get req db"
  unfolding route_get_def
  using getTransaction_reads_owned[of "idValidation (incoming req)" db] by simp

lemma getTransactionStats_reads_owned:
  "getTransactionStats r (owned (user_userId r) db) = getTransactionStats r db"
  unfolding getTransactionStats_def match_stage_def filter_matches_owned[OF filter_userId(3)] ..

lemma stats_reads_owned:
  "route_stats req (owned (user_userId req) db) = route_stats req db"
  unfolding route_stats_def
  using getTransactionStats_reads_owned[of "queryValidation (incoming req)" db] by simp

lemma getCategoryStats_reads_owned:
  "getCategoryStats r (owned (user_userId r) db) = getCategoryStats r db"
  unfolding getCategoryStats_def category_pipeline_def match_stage_def
    filter_matches_owned[OF filter_userId(4)] ..

lemma categories_reads_owned:
  "route_stats_categories req (owned (user_userId req) db) = route_stats_categories req db"
  unfolding route_stats_categories_def
  using getCategoryStats_reads_owned[of "queryValidation (incoming req)" db] by simp

lemma getMonthlyStats_reads_owned:
  "getMonthlyStats r (owned (user_userId r) db) = getMonthlyStats r db"
  unfolding getMonthlyStats_def monthly_pipeline_def match_stage_def
    filter_matches_owned[OF filter_userId(5)] ..

lemma monthly_reads_owned:
  "route_stats_monthly req (owned (user_userId req) db) = route_stats_monthly req db"
  unfolding route_stats_monthly_def
  using getMonthlyStats_reads_owned[of "queryValidation (incoming req)" db] by simp

lemma others_update_first:
  assumes "\<And>x. P x \<Longrightarrow> userId x = u \<and> userId (g x) = u"
  shows "others u (update_first P g xs) = others u xs"
  unfolding others_def using assms by (induction xs) auto

lemma others_remove_first:
  assumes "\<And>x. P x \<Longrightarrow> userId x = u"
  shows "others u (remove_first P xs) = others u xs"
  unfolding others_def using assms by (induction xs) auto

lemma userId_apply_update [simp]: "userId (apply_update u t) = userId t"
  by (simp add: apply_update_def)

lemma patch_owned:
  assumes "route_patch req db = (resp, db')"
  shows "others (user_userId req) db' = others (user_userId req) db
         \<and> (\<forall>t. payload resp = Some t \<longrightarrow> userId t = user_userId req)"
proof -
  let ?r = "updateTransactionValidation (idValidation (incoming req))"
  let ?f = "id_owner_filter ?r"
  let ?u = "updateData_of (body ?r)"
  have m: "\<And>x. matches ?f x \<Longrightarrow> userId x = user_userId req \<and> userId (apply_update ?u x) = user_userId req"
    by (auto dest: matches_owner[rotated])
  have o: "others (user_userId req) (update_first (matches ?f) (apply_update ?u) db) = others (user_userId req) db"
    by (rule others_update_first) (rule m)
  have p: "\<And>t. find (matches ?f) db = Some t \<Longrightarrow> userId t = user_userId req"
    using m by (auto simp: find_Some_iff)
  from assms o p show ?thesis
    by (auto simp: route_patch_def updateTransaction_def findOneAndUpdate_def
        split: if_splits option.splits sum.splits prod.splits)
qed

lemma delete_owned:
  assumes "route_delete req db = (resp, db')"
  shows "others (user_userId req) db' = others (user_userId req) db
         \<and> (\<forall>t. payload resp = Some t \<longrightarrow> userId t = user_userId req)"
proof -
  let ?r = "idValidation (incoming req)"
  let ?f = "id_owner_filter ?r"
  have m: "\<And>x. matches ?f x \<Longrightarrow> userId x = user_userId req"
    by (auto dest: matches_owner[rotated])
  have o: "others (user_userId req) (remove_first (matches ?f) db) = others (user_userId req) db"
    by (rule others_remove_first) (rule m)
  have p: "\<And>t. find (matches ?f) db = Some t \<Longrightarrow> userId t = user_userId req"
    using m by (auto simp: find_Some_iff)
  from assms o p show ?thesis
    by (auto simp: route_delete_def deleteTransaction_def findOneAndDelete_def
        split: if_splits option.splits sum.splits prod.splits)
qed

subsection \<open>Response envelopes\<close>

lemma status_simps [simp]:
  "status (validation_failed es) = 400"
  "status (server_error m) = 500"
  "status (not_found :: 'a response) = 404"
  "status (ok mo d) = 200"
  by (simp_all add: validation_failed_def server_error_def not_found_def ok_def)


subsection \<open>C1: every operation is scoped to the requester\<close>

text \<open>
  Claim C1. For every request to a transaction operation, the records the operation
  returns are records of the collection owned by the requester (list, lookup, update,
  delete); update and delete leave the records of every other user as they were; the
  answer of the list, the lookup and the three statistics is the same when the collection
  is cut down to the requester's records, so no other record is read into it; and the filter
  each of the seven operations hands to the store holds the requester's \<^verbatim>\<open>userId\<close>.
\<close>

theorem owner_scoping:
  "(\<forall>t \<in> set (listed (route_list req db)). userId t = user_userId req \<and> t \<in> set db)
   \<and> (\<forall>t \<in> set (returned (route_get req db)). userId t = user_userId req \<and> t \<in> set db)
   \<and> (\<forall>t \<in> set (returned (fst (route_patch req db))). userId t = user_userId req)
   \<and> others (user_userId req) (snd (route_patch req db)) = others (user_userId req) db
   \<and> (\<forall>t \<in> set (returned (fst (route_delete req db))). userId t = user_userId req)
   \<and> others (user_userId req) (snd (route_delete req db)) = others (user_userId req) db
   \<and> route_list req (owned (user_userId req) db) = route_list req db
   \<and> route_get req (owned (user_userId req) db) = route_get req db
   \<and> route_stats req (owned (user_userId req) db) = route_stats req db
   \<and> route_stats_categories req (owned (user_userId req) db) = route_stats_categories req db
   \<and> route_stats_monthly req (owned (user_userId req) db) = route_stats_monthly req db
   \<and> f_userId (getTransactions_filter (queryValidation (incoming req))) = Some (user_userId req)
   \<and> f_userId (id_owner_filter (idValidation (incoming req))) = Some (user_userId req)
   \<and> f_userId (id_owner_filter (updateTransactionValidation (idValidation (incoming req))))
       = Some (user_userId req)
   \<and> f_userId (getTransactionStats_filter (queryValidation (incoming req))) = Some (user_userId req)
   \<and> f_userId (getCategoryStats_filter (queryValidation (incoming req))) = Some (user_userId req)
   \<and> f_userId (getMonthlyStats_filter (queryValidation (incoming req))) = Some (user_userId req)"
proof -
  have 1: "\<forall>t \<in> set (listed (route_list req db)). userId t = user_userId req \<and> t \<in> set db"
    using list_returns_owned[of req db]
    by (cases "payload (route_list req db)") (auto simp: listed_def)
  have 2: "\<forall>t \<in> set (returned (route_get req db)). userId t = user_userId req \<and> t \<in> set db"
    using get_returns_owned[of req db]
    by (cases "payload (route_get req db)") (auto simp: returned_def)
  obtain r1 d1 where p: "route_patch req db = (r1, d1)" by (cases "route_patch req db")
  obtain r2 d2 where d: "route_delete req db = (r2, d2)" by (cases "route_delete req db")
  have 3: "\<forall>t \<in> set (returned (fst (route_patch req db))). userId t = user_userId req"
    using patch_owned[OF p] p by (cases "payload r1") (auto simp: returned_def)
  have 4: "others (user_userId req) (snd (route_patch req db)) = others (user_userId req) db"
    using patch_owned[OF p] p by simp
  have 5: "\<forall>t \<in> set (returned (fst (route_delete req db))). userId t = user_userId req"
    using delete_owned[OF d] d by (cases "payload r2") (auto simp: returned_def)
  have 6: "others (user_userId req) (snd (route_delete req db)) = others (user_userId req) db"
    using delete_owned[OF d] d by simp
  show ?thesis
    using 1 2 3 4 5 6
    by (simp add: list_reads_owned get_reads_owned stats_reads_owned categories_reads_owned
        monthly_reads_owned)
qed

text \<open>
  The theorem at Alice's list request over a collection that also holds a record of Bob:
  her salary record is returned, and it is hers.
\<close>

theorem owner_scoping_witness:
  "salary \<in> set (listed (route_list alice_request example_db))
   \<and> userId salary = user_userId alice_request"
proof -
  have h: "salary \<in> set (listed (route_list alice_request example_db))" by code_simp
  with owner_scoping[of alice_request example_db] show ?thesis by blast
qed


subsection \<open>C2: pagination metadata\<close>




lemma page9_of_ten:
  "map_option pagination (payload (route_list page9_request ten_docs))
     = Some \<lparr>currentPage = 9, totalPages = 10, totalTransactions = 10,
             hasNextPage = True, hasPrevPage = True\<rparr>"
  by code_simp

subsection \<open>The \<^verbatim>\<open>$group\<close> stage\<close>

lemma g_id_group_of [simp]: "g_id (group_of key docs k) = k"
  by (simp add: group_of_def Let_def)







lemma type_name_eq [simp]:
  "(type_name ty = ''Income'') = (ty = Income)"
  "(type_name ty = ''Expense'') = (ty = Expense)"
  by (cases ty; simp)+




subsection \<open>C3: statistics by type\<close>



subsection \<open>C5: statistics by category\<close>

lemma set_group_stage:
  "set (group_stage key docs) = group_of key docs ` key ` set docs"
  by (simp add: group_stage_def)


lemma distinct_group_stage: "distinct (map g_id (group_stage key docs))"
proof -
  have "map g_id (group_stage key docs) = remdups (map key docs)"
    by (simp add: group_stage_def o_def)
  then show ?thesis by simp
qed





lemma category_stats_of_alice:
  "payload (route_stats_categories alice_request example_db)
     = Some [\<lparr>c_category = ''job'', c_type = ''Income'', c_total = 100, c_count = 1,
               c_average = 100\<rparr>,
             \<lparr>c_category = ''food'', c_type = ''Expense'', c_total = 40, c_count = 1,
               c_average = 40\<rparr>]"
  by code_simp

subsection \<open>The month key is injective\<close>

lemma lt10_cases:
  "(k::nat) < 10 \<Longrightarrow> k = 0 \<or> k = 1 \<or> k = 2 \<or> k = 3 \<or> k = 4 \<or> k = 5 \<or> k = 6 \<or> k = 7 \<or> k = 8 \<or> k = 9"
  by arith

lemma digit_of_nth: "k < 10 \<Longrightarrow> is_digit (''0123456789'' ! k) \<and> digit_val (''0123456789'' ! k) = k"
  by (drule lt10_cases) (auto simp: is_digit_def digit_val_def)

lemma digits_to_nat_snoc: "digits_to_nat (s @ [c]) = 10 * digits_to_nat s + digit_val c"
  by (simp add: digits_to_nat_def)

lemma string_of_nat_digits: "string_of_nat n \<noteq> [] \<and> list_all is_digit (string_of_nat n)"
proof (induction n rule: string_of_nat.induct)
  case (1 n)
  show ?case
  proof (cases "n < 10")
    case True
    then show ?thesis using digit_of_nth[of n] by (simp add: string_of_nat.simps[of n])
  next
    case False
    with 1 digit_of_nth[of "n mod 10"] show ?thesis by (simp add: string_of_nat.simps[of n])
  qed
qed

lemma digits_to_nat_string_of_nat: "digits_to_nat (string_of_nat n) = n"
proof (induction n rule: string_of_nat.induct)
  case (1 n)
  show ?case
  proof (cases "n < 10")
    case True
    then show ?thesis
      using digit_of_nth[of n] by (simp add: string_of_nat.simps[of n] digits_to_nat_def)
  next
    case False
    with 1 digit_of_nth[of "n mod 10"] show ?thesis
      by (simp add: string_of_nat.simps[of n] digits_to_nat_snoc)
  qed
qed

lemma digits_to_nat_zeros: "digits_to_nat (replicate k (CHR ''0'') @ s) = digits_to_nat s"
  by (induction k) (simp_all add: digits_to_nat_def digit_val_def)

lemma digits_to_nat_padStart:
  "digits_to_nat (padStart n (CHR ''0'') (string_of_nat m)) = m"
  by (simp add: padStart_def digits_to_nat_zeros digits_to_nat_string_of_nat)

lemma dash_not_digit: "\<not> is_digit (CHR ''-'')"
  by (simp add: is_digit_def)

lemma padStart_no_dash: "CHR ''-'' \<notin> set (padStart n (CHR ''0'') (string_of_nat m))"
  using string_of_nat_digits[of m] dash_not_digit
  by (auto simp: padStart_def list_all_iff)

lemma string_of_int_inj: "string_of_int i = string_of_int j \<Longrightarrow> i = j"
proof -
  assume e: "string_of_int i = string_of_int j"
  have hd: "\<And>n. hd (string_of_nat n) \<noteq> CHR ''-''"
  proof -
    fix n
    from string_of_nat_digits[of n] have "is_digit (hd (string_of_nat n))"
      by (cases "string_of_nat n") auto
    with dash_not_digit show "hd (string_of_nat n) \<noteq> CHR ''-''" by auto
  qed
  have ne: "\<And>n m. CHR ''-'' # string_of_nat n \<noteq> string_of_nat m"
  proof
    fix n m assume "CHR ''-'' # string_of_nat n = string_of_nat m"
    then have "hd (string_of_nat m) = CHR ''-''" by (metis list.sel(1))
    with hd show False by blast
  qed
  have inj: "\<And>n m. string_of_nat n = string_of_nat m \<Longrightarrow> n = m"
    by (metis digits_to_nat_string_of_nat)
  show "i = j"
  proof (cases "i < 0"; cases "j < 0")
    assume "i < 0" "j < 0"
    with e have "nat (- i) = nat (- j)" by (simp add: string_of_int_def inj)
    with \<open>i < 0\<close> \<open>j < 0\<close> show ?thesis by simp
  next
    assume "i < 0" "\<not> j < 0"
    with e ne show ?thesis by (simp add: string_of_int_def)
  next
    assume "\<not> i < 0" "j < 0"
    with e ne[of "nat (- j)" "nat i"] show ?thesis by (simp add: string_of_int_def)
  next
    assume "\<not> i < 0" "\<not> j < 0"
    with e have "nat i = nat j" by (simp add: string_of_int_def inj)
    with \<open>\<not> i < 0\<close> \<open>\<not> j < 0\<close> show ?thesis by simp
  qed
qed

lemma takeWhile_until: "c \<notin> set xs \<Longrightarrow> takeWhile (\<lambda>x. x \<noteq> c) (xs @ c # ys) = xs"
  by (induction xs) auto

lemma split_at_last_dash:
  assumes "a @ CHR ''-'' # b = a' @ CHR ''-'' # b'" "CHR ''-'' \<notin> set b" "CHR ''-'' \<notin> set b'"
  shows "a = a' \<and> b = b'"
proof -
  from assms(1) have "rev (a @ CHR ''-'' # b) = rev (a' @ CHR ''-'' # b')" by simp
  then have r: "rev b @ CHR ''-'' # rev a = rev b' @ CHR ''-'' # rev a'" by simp
  have "rev b = takeWhile (\<lambda>x. x \<noteq> CHR ''-'') (rev b @ CHR ''-'' # rev a)"
    using assms(2) by (simp add: takeWhile_until)
  also have "\<dots> = takeWhile (\<lambda>x. x \<noteq> CHR ''-'') (rev b' @ CHR ''-'' # rev a')"
    by (simp only: r)
  also have "\<dots> = rev b'"
    using assms(3) by (simp add: takeWhile_until)
  finally have b: "b = b'" by simp
  with assms(1) show ?thesis by simp
qed

lemma month_key_inj: "month_key y m = month_key y' m' \<Longrightarrow> y = y' \<and> m = m'"
proof -
  assume "month_key y m = month_key y' m'"
  then have "string_of_int y @ CHR ''-'' # padStart 2 (CHR ''0'') (string_of_nat m)
           = string_of_int y' @ CHR ''-'' # padStart 2 (CHR ''0'') (string_of_nat m')"
    by (simp add: month_key_def)
  from split_at_last_dash[OF this padStart_no_dash padStart_no_dash]
  have 1: "string_of_int y = string_of_int y'"
    and 2: "padStart 2 (CHR ''0'') (string_of_nat m) = padStart 2 (CHR ''0'') (string_of_nat m')"
    by auto
  from 2 have "m = m'" by (metis digits_to_nat_padStart)
  with 1 show ?thesis by (simp add: string_of_int_inj)
qed

subsection \<open>The monthly accumulator\<close>

lemma entry_ok_other:
  assumes "entry_ok T C ps e" "g_id g = (y, m, ty)" "(year e, month e) \<noteq> (y, m)"
  shows "entry_ok T C (ps @ [g]) e"
  using assms unfolding entry_ok_def by auto

lemma entry_ok_same:
  assumes "entry_ok T C ps e" "g_id g = (year e, month e, ty)"
    "g_total g = T (g_id g)" "g_count g = C (g_id g)" "ty = ''Income'' \<or> ty = ''Expense''"
    "g_id g \<notin> g_id ` set ps"
  shows "entry_ok T C (ps @ [g])
           (if ty = ''Income'' then e\<lparr>income := g_total g, incomeCount := g_count g\<rparr>
            else e\<lparr>expense := g_total g, expenseCount := g_count g\<rparr>)"
  using assms unfolding entry_ok_def by auto

lemma entry_ok_new:
  assumes "g_id g = (y, m, ty)"
    "g_total g = T (g_id g)" "g_count g = C (g_id g)" "ty = ''Income'' \<or> ty = ''Expense''"
    "\<And>ty'. (y, m, ty') \<notin> g_id ` set ps"
  shows "entry_ok T C (ps @ [g])
           (if ty = ''Income''
            then \<lparr>year = y, month = m, income = 0, expense = 0, incomeCount = 0, expenseCount = 0\<rparr>
                   \<lparr>income := g_total g, incomeCount := g_count g\<rparr>
            else \<lparr>year = y, month = m, income = 0, expense = 0, incomeCount = 0, expenseCount = 0\<rparr>
                   \<lparr>expense := g_total g, expenseCount := g_count g\<rparr>)"
  using assms unfolding entry_ok_def by auto


lemma fst_map_at_key:
  "map fst (map (\<lambda>(k, e). if k = key then (k, f e) else (k, e)) xs) = map fst xs"
  by (induction xs) auto

lemma in_map_at_key:
  assumes "(k, e') \<in> set (map (\<lambda>(k, e). if k = key then (k, f e) else (k, e)) xs)"
  shows "\<exists>e. (k, e) \<in> set xs \<and> e' = (if k = key then f e else e)"
  using assms by (induction xs) (auto split: if_splits)

lemma map_of_None_iff: "(map_of xs k = None) = (k \<notin> fst ` set xs)"
  by (simp add: map_of_eq_None_iff)

lemma monthly_step_inv:
  assumes inv: "month_inv T C ps acc"
    and gid: "g_id g = (y, m, ty)"
    and tot: "g_total g = T (g_id g)" and cnt: "g_count g = C (g_id g)"
    and ty: "ty = ''Income'' \<or> ty = ''Expense''"
    and new: "g_id g \<notin> g_id ` set ps"
  shows "month_inv T C (ps @ [g]) (monthly_step acc g)"
proof -
  let ?key = "month_key y m"
  let ?e0 = "\<lparr>year = y, month = m, income = 0, expense = 0, incomeCount = 0, expenseCount = 0\<rparr>"
  let ?f = "\<lambda>e. if ty = ''Income'' then e\<lparr>income := g_total g, incomeCount := g_count g\<rparr>
                 else e\<lparr>expense := g_total g, expenseCount := g_count g\<rparr>"
  let ?acc1 = "if ?key \<notin> fst ` set acc then acc @ [(?key, ?e0)] else acc"
  have step: "monthly_step acc g = map (\<lambda>(k, e). if k = ?key then (k, ?f e) else (k, e)) ?acc1"
    by (simp add: monthly_step_def gid Let_def map_of_None_iff)
  from inv have d: "distinct (map fst acc)"
    and ents: "\<And>k e. (k, e) \<in> set acc \<Longrightarrow> k = month_key (year e) (month e) \<and> entry_ok T C ps e"
    and seen: "\<And>g'. g' \<in> set ps \<Longrightarrow> (case g_id g' of (y, m, ty) \<Rightarrow> month_key y m \<in> fst ` set acc)"
    by (auto simp: month_inv_def list_all_iff)
  have keys: "map fst (monthly_step acc g) = map fst ?acc1"
    unfolding step by (rule fst_map_at_key)
  have 1: "distinct (map fst (monthly_step acc g))"
    unfolding keys using d by auto
  have 2: "k = month_key (year e') (month e') \<and> entry_ok T C (ps @ [g]) e'"
    if "(k, e') \<in> set (monthly_step acc g)" for k e'
  proof -
    from that have "(k, e') \<in> set (map (\<lambda>(k, e). if k = ?key then (k, ?f e) else (k, e)) ?acc1)"
      by (simp only: step)
    from in_map_at_key[OF this]
    obtain e where e: "(k, e) \<in> set ?acc1" and e': "e' = (if k = ?key then ?f e else e)"
      by blast
    show ?thesis
    proof (cases "k = ?key")
      case False
      with e have in_acc: "(k, e) \<in> set acc" by (auto split: if_splits)
      from ents[OF in_acc] False have "(year e, month e) \<noteq> (y, m)" by auto
      from entry_ok_other[OF _ gid this] ents[OF in_acc] e' False show ?thesis by simp
    next
      case True
      show ?thesis
      proof (cases "?key \<in> fst ` set acc")
        case here: True
        with e have in_acc: "(k, e) \<in> set acc" by simp
        from ents[OF in_acc] True have "month_key (year e) (month e) = month_key y m" by simp
        then have ym: "year e = y" "month e = m" by (auto dest: month_key_inj)
        from ents[OF in_acc] have ok: "entry_ok T C ps e" by simp
        have "g_id g = (year e, month e, ty)" using gid ym by simp
        from entry_ok_same[OF ok this tot cnt ty new] e' True ym show ?thesis by auto
      next
        case False
        have fresh: "(y, m, ty') \<notin> g_id ` set ps" for ty'
        proof
          assume "(y, m, ty') \<in> g_id ` set ps"
          then obtain g' where "g' \<in> set ps" "g_id g' = (y, m, ty')" by auto
          with seen[of g'] False show False by simp
        qed
        from False e True have e0: "e = ?e0"
          by (auto simp: image_iff split: if_splits)
        have "entry_ok T C (ps @ [g]) (?f ?e0)"
          using gid tot cnt ty fresh by (intro entry_ok_new) auto
        with e' True e0 show ?thesis by auto
      qed
    qed
  qed
  have 3: "case g_id g' of (y, m, ty) \<Rightarrow> month_key y m \<in> fst ` set (monthly_step acc g)"
    if "g' \<in> set (ps @ [g])" for g'
  proof -
    have s: "fst ` set (monthly_step acc g) = set (map fst ?acc1)"
      using keys by (metis set_map)
    from that consider "g' \<in> set ps" | "g' = g" by auto
    then show ?thesis
    proof cases
      case 1
      from seen[OF 1] show ?thesis unfolding s by (auto split: prod.splits)
    next
      case 2
      then show ?thesis unfolding s using gid by auto
    qed
  qed
  show ?thesis
    unfolding month_inv_def list_all_iff
  proof (intro conjI ballI)
    show "distinct (map fst (monthly_step acc g))" by (rule 1)
  next
    fix x assume "x \<in> set (monthly_step acc g)"
    then show "case x of (k, e) \<Rightarrow> k = month_key (year e) (month e) \<and> entry_ok T C (ps @ [g]) e"
      using 2 by (cases x) auto
  next
    fix g' assume "g' \<in> set (ps @ [g])"
    then show "case g_id g' of (y, m, ty) \<Rightarrow> month_key y m \<in> fst ` set (monthly_step acc g)"
      by (rule 3)
  qed
qed

lemma month_inv_empty: "month_inv T C [] []"
  by (simp add: month_inv_def)

lemma monthly_fold_inv:
  assumes "distinct (map g_id gs)"
    and "\<And>g. g \<in> set gs \<Longrightarrow> g_total g = T (g_id g) \<and> g_count g = C (g_id g)
           \<and> (snd (snd (g_id g)) = ''Income'' \<or> snd (snd (g_id g)) = ''Expense'')"
  shows "month_inv T C gs (foldl monthly_step [] gs)"
  using assms
proof (induction gs rule: rev_induct)
  case Nil
  show ?case by (simp add: month_inv_empty)
next
  case (snoc g gs)
  obtain y m ty where gid: "g_id g = (y, m, ty)" by (cases "g_id g")
  from snoc.prems(1) have d: "distinct (map g_id gs)" and new: "g_id g \<notin> g_id ` set gs"
    by auto
  have inv: "month_inv T C gs (foldl monthly_step [] gs)"
    using snoc.IH[OF d] snoc.prems(2) by simp
  from snoc.prems(2)[of g] gid
  have tot: "g_total g = T (g_id g)" and cnt: "g_count g = C (g_id g)"
    and ty: "ty = ''Income'' \<or> ty = ''Expense''"
    by auto
  from monthly_step_inv[OF inv gid tot cnt ty new] show ?case by simp
qed

lemma type_name_cases: "type_name ty = ''Income'' \<or> type_name ty = ''Expense''"
  by (cases ty) simp_all

lemma filter_month_type_key:
  "filter (\<lambda>d. month_type_key d = (y, m, type_name ty)) docs = in_month y m ty docs"
proof -
  have "type_name a = type_name ty \<longleftrightarrow> a = ty" for a
    by (cases a; cases ty) simp_all
  then show ?thesis
    by (simp add: in_month_def month_type_key_def conj_ac cong: filter_cong)
qed

lemma in_image_month_type_key:
  "((y, m, type_name ty) \<in> month_type_key ` set docs) = (in_month y m ty docs \<noteq> [])"
proof -
  have "(in_month y m ty docs \<noteq> []) = (\<exists>d \<in> set docs. month_type_key d = (y, m, type_name ty))"
    unfolding filter_month_type_key[symmetric] by (simp add: filter_empty_conv)
  then show ?thesis by force
qed

lemma total_amount_Nil [simp]: "total_amount [] = 0"
  by (simp add: total_amount_def)

lemma monthly_acc_inv:
  fixes docs :: "transaction list"
  defines "gs \<equiv> sort_key (\<lambda>g. case g_id g of (y, m, ty) \<Rightarrow> (y, m)) (group_stage month_type_key docs)"
  shows "month_inv (\<lambda>k. g_total (group_of month_type_key docs k))
           (\<lambda>k. g_count (group_of month_type_key docs k)) gs (foldl monthly_step [] gs)
         \<and> g_id ` set gs = month_type_key ` set docs"
proof -
  let ?T = "\<lambda>k. g_total (group_of month_type_key docs k)"
  let ?C = "\<lambda>k. g_count (group_of month_type_key docs k)"
  have ids: "g_id ` set gs = month_type_key ` set docs"
    by (simp add: gs_def set_group_stage image_image)
  have d: "distinct (map g_id gs)"
    using distinct_group_stage[of month_type_key docs] by (simp add: gs_def distinct_map)
  have each: "g_total g = ?T (g_id g) \<and> g_count g = ?C (g_id g)
           \<and> (snd (snd (g_id g)) = ''Income'' \<or> snd (snd (g_id g)) = ''Expense'')"
    if "g \<in> set gs" for g
  proof -
    from that obtain x where "x \<in> set docs" "g = group_of month_type_key docs (month_type_key x)"
      by (auto simp: gs_def set_group_stage)
    then show ?thesis using type_name_cases[of "ttype x"] by (simp add: month_type_key_def)
  qed
  from monthly_fold_inv[of gs ?T ?C, OF d each] ids show ?thesis by simp
qed

lemma monthly_acc_entries:
  fixes docs :: "transaction list"
  defines "gs \<equiv> sort_key (\<lambda>g. case g_id g of (y, m, ty) \<Rightarrow> (y, m)) (group_stage month_type_key docs)"
  assumes "(k, e) \<in> set (foldl monthly_step [] gs)"
  shows "income e = total_amount (in_month (year e) (month e) Income docs)
       \<and> incomeCount e = length (in_month (year e) (month e) Income docs)
       \<and> expense e = total_amount (in_month (year e) (month e) Expense docs)
       \<and> expenseCount e = length (in_month (year e) (month e) Expense docs)
       \<and> (in_month (year e) (month e) Income docs \<noteq> []
            \<or> in_month (year e) (month e) Expense docs \<noteq> [])
       \<and> k = month_key (year e) (month e)"
proof -
  let ?T = "\<lambda>k. g_total (group_of month_type_key docs k)"
  let ?C = "\<lambda>k. g_count (group_of month_type_key docs k)"
  from monthly_acc_inv[of docs]
  have inv: "month_inv ?T ?C gs (foldl monthly_step [] gs)"
    and ids: "g_id ` set gs = month_type_key ` set docs"
    by (simp_all add: gs_def)
  from inv assms(2)
  have k: "k = month_key (year e) (month e)" and ok: "entry_ok ?T ?C gs e"
    by (auto simp: month_inv_def list_all_iff)
  have T: "?T (y, m, type_name ty) = total_amount (in_month y m ty docs)" for y m ty
    by (simp add: group_of_def Let_def filter_month_type_key total_amount_def)
  have C: "?C (y, m, type_name ty) = length (in_month y m ty docs)" for y m ty
    by (simp add: group_of_def Let_def filter_month_type_key)
  have mem: "((y, m, type_name ty) \<in> g_id ` set gs) = (in_month y m ty docs \<noteq> [])" for y m ty
    by (simp add: ids in_image_month_type_key)
  have some: "(\<exists>s. (y, m, s) \<in> g_id ` set gs)
                \<Longrightarrow> in_month y m Income docs \<noteq> [] \<or> in_month y m Expense docs \<noteq> []" for y m
  proof -
    assume "\<exists>s. (y, m, s) \<in> g_id ` set gs"
    then obtain x where x: "x \<in> set docs" "yr (date x) = y" "mon (date x) = m"
      by (auto simp: ids month_type_key_def)
    then have "x \<in> set (in_month y m (ttype x) docs)" by (simp add: in_month_def)
    then show ?thesis by (cases "ttype x") auto
  qed
  from ok have
    i: "income e = (if (year e, month e, ''Income'') \<in> g_id ` set gs
                  then ?T (year e, month e, ''Income'') else 0)"
    and ic: "incomeCount e = (if (year e, month e, ''Income'') \<in> g_id ` set gs
                  then ?C (year e, month e, ''Income'') else 0)"
    and x: "expense e = (if (year e, month e, ''Expense'') \<in> g_id ` set gs
                  then ?T (year e, month e, ''Expense'') else 0)"
    and xc: "expenseCount e = (if (year e, month e, ''Expense'') \<in> g_id ` set gs
                  then ?C (year e, month e, ''Expense'') else 0)"
    and ex: "\<exists>s. (year e, month e, s) \<in> g_id ` set gs"
    unfolding entry_ok_def by blast+
  from i T[of "year e" "month e" Income] mem[of "year e" "month e" Income]
  have 1: "income e = total_amount (in_month (year e) (month e) Income docs)" by simp
  from ic C[of "year e" "month e" Income] mem[of "year e" "month e" Income]
  have 2: "incomeCount e = length (in_month (year e) (month e) Income docs)" by simp
  from x T[of "year e" "month e" Expense] mem[of "year e" "month e" Expense]
  have 3: "expense e = total_amount (in_month (year e) (month e) Expense docs)" by simp
  from xc C[of "year e" "month e" Expense] mem[of "year e" "month e" Expense]
  have 4: "expenseCount e = length (in_month (year e) (month e) Expense docs)" by simp
  from 1 2 3 4 some[OF ex] k show ?thesis by simp
qed


lemma distinct_months:
  assumes "distinct (map fst acc)"
    and "\<And>k a. (k, a) \<in> set acc \<Longrightarrow> k = month_key (year a) (month a)"
  shows "distinct (map (\<lambda>(k, a). (year a, month a)) acc)"
proof -
  have e: "map fst acc = map (\<lambda>ym. month_key (fst ym) (snd ym)) (map (\<lambda>(k, a). (year a, month a)) acc)"
    using assms(2) by (induction acc) auto
  from assms(1) have "distinct (map (\<lambda>ym. month_key (fst ym) (snd ym))
                         (map (\<lambda>(k, a). (year a, month a)) acc))"
    by (simp only: e)
  then show ?thesis by (rule distinct_map[THEN iffD1, THEN conjunct1])
qed

lemma monthly_acc_months:
  fixes docs :: "transaction list"
  defines "gs \<equiv> sort_key (\<lambda>g. case g_id g of (y, m, ty) \<Rightarrow> (y, m)) (group_stage month_type_key docs)"
  shows "distinct (map (\<lambda>(k, a). (year a, month a)) (foldl monthly_step [] gs))
       \<and> (\<forall>d \<in> set docs. \<exists>(k, a) \<in> set (foldl monthly_step [] gs).
              year a = yr (date d) \<and> month a = mon (date d))"
proof -
  let ?T = "\<lambda>k. g_total (group_of month_type_key docs k)"
  let ?C = "\<lambda>k. g_count (group_of month_type_key docs k)"
  let ?acc = "foldl monthly_step [] gs"
  from monthly_acc_inv[of docs]
  have inv: "month_inv ?T ?C gs ?acc"
    and ids: "g_id ` set gs = month_type_key ` set docs"
    by (simp_all add: gs_def)
  from inv have d: "distinct (map fst ?acc)"
    and keyed: "\<And>k a. (k, a) \<in> set ?acc \<Longrightarrow> k = month_key (year a) (month a)"
    and seen: "\<And>g. g \<in> set gs \<Longrightarrow> (case g_id g of (y, m, ty) \<Rightarrow> month_key y m \<in> fst ` set ?acc)"
    by (auto simp: month_inv_def list_all_iff)
  have 1: "distinct (map (\<lambda>(k, a). (year a, month a)) ?acc)"
    using d keyed by (rule distinct_months)
  have 2: "\<exists>(k, a) \<in> set ?acc. year a = yr (date x) \<and> month a = mon (date x)"
    if "x \<in> set docs" for x
  proof -
    from that ids have "month_type_key x \<in> g_id ` set gs" by simp
    then obtain g where g: "g \<in> set gs" "g_id g = month_type_key x" by auto
    from seen[OF g(1)] g(2) have "month_key (yr (date x)) (mon (date x)) \<in> fst ` set ?acc"
      by (simp add: month_type_key_def)
    then obtain k a where ka: "(k, a) \<in> set ?acc" "k = month_key (yr (date x)) (mon (date x))"
      by auto
    from keyed[OF ka(1)] ka(2) have "year a = yr (date x) \<and> month a = mon (date x)"
      by (auto dest: month_key_inj)
    with ka(1) show ?thesis by auto
  qed
  from 1 2 show ?thesis by blast
qed

lemma with_net_fields [simp]:
  "year (with_net a) = year a" "month (with_net a) = month a"
  "income (with_net a) = income a" "expense (with_net a) = expense a"
  "incomeCount (with_net a) = incomeCount a" "expenseCount (with_net a) = expenseCount a"
  "net (with_net a) = income a - expense a"
  "totalTransactions (with_net a) = incomeCount a + expenseCount a"
  by (simp_all add: with_net_def)

lemma getMonthlyStats_payload:
  assumes "status (getMonthlyStats r db) = 200"
  shows "payload (getMonthlyStats r db) =
     Some (map (\<lambda>(k, stat). with_net stat)
            (foldl monthly_step []
               (sort_key (\<lambda>g. case g_id g of (y, m, ty) \<Rightarrow> (y, m))
                  (group_stage month_type_key (filter (matches (getMonthlyStats_filter r)) db)))))"
  using assms
  by (auto simp: getMonthlyStats_def monthly_pipeline_def match_stage_def split: if_splits)

subsection \<open>C4: statistics by month\<close>

text \<open>
  Claim C4. For every successful monthly-statistics request, the output has one entry per
  (year, month) in which the requester has a matching record; each entry reports
  \<open>income\<close>, \<open>expense\<close>, \<open>incomeCount\<close> and \<open>expenseCount\<close> as the sum and the number
  of the matching Income and Expense records of that month, which is 0 and 0 for a side
  with no record; and \<open>net\<close> is \<open>income - expense\<close> and \<open>totalTransactions\<close> is
  \<open>incomeCount + expenseCount\<close>.
\<close>

theorem monthly_stats_entries:
  assumes "status (route_stats_monthly req db) = 200"
  shows "\<exists>ms. payload (route_stats_monthly req db) = Some ms
           \<and> distinct (map (\<lambda>e. (year e, month e)) ms)
           \<and> (\<forall>d \<in> set (monthly_docs req db).
                 \<exists>e \<in> set ms. year e = yr (date d) \<and> month e = mon (date d))
           \<and> (\<forall>e \<in> set ms.
                 income e = total_amount (in_month (year e) (month e) Income (monthly_docs req db))
               \<and> incomeCount e = length (in_month (year e) (month e) Income (monthly_docs req db))
               \<and> expense e = total_amount (in_month (year e) (month e) Expense (monthly_docs req db))
               \<and> expenseCount e = length (in_month (year e) (month e) Expense (monthly_docs req db))
               \<and> (in_month (year e) (month e) Income (monthly_docs req db) = []
                    \<longrightarrow> income e = 0 \<and> incomeCount e = 0)
               \<and> (in_month (year e) (month e) Expense (monthly_docs req db) = []
                    \<longrightarrow> expense e = 0 \<and> expenseCount e = 0)
               \<and> net e = income e - expense e
               \<and> totalTransactions e = incomeCount e + expenseCount e)"
proof -
  let ?docs = "monthly_docs req db"
  let ?gs = "sort_key (\<lambda>g. case g_id g of (y, m, ty) \<Rightarrow> (y, m)) (group_stage month_type_key ?docs)"
  let ?acc = "foldl monthly_step [] ?gs"
  let ?ms = "map (\<lambda>(k, stat). with_net stat) ?acc"
  from assms have "status (getMonthlyStats (queryValidation (incoming req)) db) = 200"
    by (simp add: route_stats_monthly_def)
  from getMonthlyStats_payload[OF this]
  have p: "payload (route_stats_monthly req db) = Some ?ms"
    by (simp add: route_stats_monthly_def monthly_docs_def)
  have e1: "map (\<lambda>e. (year e, month e)) ?ms = map (\<lambda>(k, a). (year a, month a)) ?acc"
    by (simp add: o_def case_prod_unfold)
  from monthly_acc_months[of ?docs]
  have dm: "distinct (map (\<lambda>(k, a). (year a, month a)) ?acc)"
    and cov: "\<forall>d \<in> set ?docs. \<exists>(k, a) \<in> set ?acc. year a = yr (date d) \<and> month a = mon (date d)"
    by blast+
  from dm have 1: "distinct (map (\<lambda>e. (year e, month e)) ?ms)" by (simp only: e1)
  have 2: "\<forall>d \<in> set ?docs. \<exists>e \<in> set ?ms. year e = yr (date d) \<and> month e = mon (date d)"
  proof
    fix d assume "d \<in> set ?docs"
    with cov obtain k a where "(k, a) \<in> set ?acc" "year a = yr (date d)" "month a = mon (date d)"
      by blast
    then have "with_net a \<in> set ?ms" "year (with_net a) = yr (date d)"
      "month (with_net a) = mon (date d)"
      by (auto simp: image_iff intro!: bexI[of _ "(k, a)"])
    then show "\<exists>e \<in> set ?ms. year e = yr (date d) \<and> month e = mon (date d)" by blast
  qed
  have 3: "income e = total_amount (in_month (year e) (month e) Income ?docs)
               \<and> incomeCount e = length (in_month (year e) (month e) Income ?docs)
               \<and> expense e = total_amount (in_month (year e) (month e) Expense ?docs)
               \<and> expenseCount e = length (in_month (year e) (month e) Expense ?docs)
               \<and> (in_month (year e) (month e) Income ?docs = []
                    \<longrightarrow> income e = 0 \<and> incomeCount e = 0)
               \<and> (in_month (year e) (month e) Expense ?docs = []
                    \<longrightarrow> expense e = 0 \<and> expenseCount e = 0)
               \<and> net e = income e - expense e
               \<and> totalTransactions e = incomeCount e + expenseCount e"
    if "e \<in> set ?ms" for e
  proof -
    from that obtain k a where ka: "(k, a) \<in> set ?acc" and e: "e = with_net a" by auto
    from monthly_acc_entries[OF ka] e show ?thesis by simp
  qed
  from p 1 2 3 show ?thesis by blast
qed

text \<open>
  The theorem at Alice's request over a collection where February has a single expense:
  the entry of February reports income 0 and income count 0.
\<close>

theorem monthly_stats_entries_witness:
  "status (route_stats_monthly alice_request february_db) = 200
   \<and> (\<exists>ms. payload (route_stats_monthly alice_request february_db) = Some ms
          \<and> distinct (map (\<lambda>e. (year e, month e)) ms)
          \<and> list_all (\<lambda>e. net e = income e - expense e
                        \<and> totalTransactions e = incomeCount e + expenseCount e) ms)"
proof -
  have h: "status (route_stats_monthly alice_request february_db) = 200" by code_simp
  from monthly_stats_entries[OF h] h show ?thesis unfolding list_all_iff by blast
qed

lemma monthly_stats_of_alice:
  "payload (route_stats_monthly alice_request february_db)
     = Some [\<lparr>year = 2024, month = 1, income = 100, expense = 40, incomeCount = 1,
               expenseCount = 1, net = 60, totalTransactions = 2\<rparr>,
             \<lparr>year = 2024, month = 2, income = 0, expense = 3, incomeCount = 0,
               expenseCount = 1, net = - 3, totalTransactions = 1\<rparr>]"
  by code_simp

subsection \<open>Requests that pass the validation of an update\<close>

lemma last_dropWhile: "dropWhile P xs \<noteq> [] \<Longrightarrow> last (dropWhile P xs) = last xs"
  by (induction xs) (auto split: if_splits)

lemma trim_shape: "trim s = [] \<or> (\<not> is_space (hd (trim s)) \<and> \<not> is_space (last (trim s)))"
proof (cases "trim s = []")
  case True
  then show ?thesis by simp
next
  case False
  let ?a = "dropWhile is_space s"
  let ?b = "dropWhile is_space (rev ?a)"
  have t: "trim s = rev ?b" by (simp add: trim_def)
  with False have b: "?b \<noteq> []" by simp
  have a: "?a \<noteq> []"
  proof
    assume "?a = []"
    then have "?b = []" by (simp only: rev.simps dropWhile.simps)
    with b show False by contradiction
  qed
  have "last (trim s) = hd ?b" using b by (simp add: t last_rev)
  moreover have "\<not> is_space (hd ?b)" using b by (rule hd_dropWhile)
  ultimately have 1: "\<not> is_space (last (trim s))" by simp
  have "hd (trim s) = last ?b" using b by (simp add: t hd_rev)
  also have "\<dots> = last (rev ?a)" using b by (rule last_dropWhile)
  also have "\<dots> = hd ?a" using a by (simp add: last_rev)
  finally have "hd (trim s) = hd ?a" .
  moreover have "\<not> is_space (hd ?a)" using a by (rule hd_dropWhile)
  ultimately have 2: "\<not> is_space (hd (trim s))" by simp
  from 1 2 show ?thesis by simp
qed

lemma trim_trim [simp]: "trim (trim s) = trim s"
proof (cases "trim s = []")
  case True
  have "trim [] = []" by (simp add: trim_def)
  with True show ?thesis by simp
next
  case False
  with trim_shape[of s] show ?thesis by (simp add: trim_id)
qed

lemma truthy_Some [simp]: "truthy (Some s) = (s \<noteq> [])"
  by simp

lemma newDate_Nil [simp]: "newDate [] = Invalid_Date"
  by (simp add: newDate_def)






lemma patch_validated_id [simp]:
  "params_id (updateTransactionValidation (idValidation (incoming req))) = params_id req"
  "params_id (idValidation (incoming req)) = params_id req"
  by (simp_all add: updateTransactionValidation_def idValidation_def incoming_def Let_def)

subsection \<open>The single-record routes, case by case\<close>



lemma is_target_validated [simp]:
  "is_target (updateTransactionValidation (idValidation (incoming req))) = is_target req"
  "is_target (idValidation (incoming req)) = is_target req"
  by (rule ext, simp add: is_target_def)+














subsection \<open>C6: a record of another user looks like no record\<close>




subsection \<open>C8: an update overwrites the fields of the body and no other\<close>



subsection \<open>C10: the empty update is the identity\<close>



subsection \<open>C7: the statistics controllers do not reject invalid input\<close>

text \<open>
  Claim C7 says that every operation, the three statistics included, rejects malformed
  input with status 400. The routes run \<open>queryValidation\<close> in front of the statistics
  controllers as in front of the list, but the three statistics controllers never read
  its result. For the type \<^verbatim>\<open>Foo\<close> the chain records the error, the list answers 400,
  and the three statistics answer 200: the category statistics run the query and return
  the empty list.
\<close>

theorem stats_ignore_validation:
  "validationResult (queryValidation (incoming bad_type_request))
     = [\<lparr>param = ''type'', msg = ''Type must be Income or Expense''\<rparr>]
   \<and> route_stats_categories bad_type_request example_db = ok None []
   \<and> status (route_stats bad_type_request example_db) = 200
   \<and> status (route_stats_monthly bad_type_request example_db) = 200
   \<and> status (route_list bad_type_request example_db) = 400"
  by code_simp


text \<open>
  The routes whose controllers read the result reject such a request without touching the
  store: the answer is the validation failure whatever the collection holds.
\<close>

lemma list_rejects_invalid:
  assumes "validationResult (queryValidation (incoming req)) \<noteq> []"
  shows "route_list req db = validation_failed (validationResult (queryValidation (incoming req)))"
  using assms by (simp add: route_list_def getTransactions_def)

subsection \<open>C9: the year filter of the monthly statistics\<close>

text \<open>
  Claim C9 says that a year parameter selects the records dated from the start of
  January 1 to the end of December 31. The upper bound the controller builds,
  \<^verbatim>\<open>new Date(`${year}-12-31`)\<close>, is midnight UTC at the start of December 31: a record
  of 2024-12-31 at noon is left out of the statistics of 2024, a record at midnight is in.
\<close>

theorem year_filter_drops_december_31:
  "payload (route_stats_monthly year_2024_request [new_years_eve_noon]) = Some []
   \<and> payload (route_stats_monthly year_2024_request [new_years_eve_midnight])
       = Some [\<lparr>year = 2024, month = 12, income = 0, expense = 30, incomeCount = 0,
                 expenseCount = 1, net = - 30, totalTransactions = 1\<rparr>]
   \<and> f_date_lte (getMonthlyStats_filter (queryValidation (incoming year_2024_request)))
       = Some (Date \<lparr>yr = 2024, mon = 12, dy = 31, msec = 0\<rparr>)"
  by code_simp

end
